theory Spec2Isabelle
  imports Complex_Main
begin

unbundle bit_operations_syntax

section \<open>The fireworks particle simulator (fireworks.js)\<close>

text \<open>
  The script keeps all of its state in module-level variables and mutates them from
  callbacks that the browser runs one at a time. The model below collects those
  variables in one record and turns every function of the script into a function from
  state to state. What the script reads from the browser (the clock, the size of the
  host element, the device pixel ratio, the sound switch) is passed in as an
  environment record.

  JavaScript numbers are modelled by the reals: the model says nothing about rounding
  of doubles, NaN or infinities. Calls that only paint on the canvas or drive audio
  elements are left out; what drawing writes back into an entity (the previous
  position) is kept.
\<close>

subsection \<open>Helpers\<close>

definition lerp :: "real \<Rightarrow> real \<Rightarrow> real \<Rightarrow> real" where
  "lerp a b t = a + (b - a) * t"

text \<open>\<open>clamp(n, lo, hi) = Math.max(lo, Math.min(hi, n))\<close>, on numbers and on the
  integers that \<open>Math.floor\<close> and \<open>Math.round\<close> return.\<close>

definition clamp :: "'a::linorder \<Rightarrow> 'a \<Rightarrow> 'a \<Rightarrow> 'a" where
  "clamp n lo hi = max lo (min hi n)"

text \<open>\<open>Math.round\<close> rounds halves upwards.\<close>

definition js_round :: "real \<Rightarrow> int" where
  "js_round v = \<lfloor>v + 1 / 2\<rfloor>"

text \<open>The remainder operator \<open>%\<close> on numbers: the quotient is truncated towards zero.\<close>

definition js_trunc :: "real \<Rightarrow> int" where
  "js_trunc v = (if 0 \<le> v then \<lfloor>v\<rfloor> else \<lceil>v\<rceil>)"

definition js_mod :: "real \<Rightarrow> real \<Rightarrow> real" where
  "js_mod a b = a - b * of_int (js_trunc (a / b))"

subsection \<open>Configuration constants\<close>

definition LOWER_LINE_TARGET_FIREWORKS :: real where "LOWER_LINE_TARGET_FIREWORKS = 45 / 100"
definition UPPER_LINE_TARGET_FIREWORKS :: real where "UPPER_LINE_TARGET_FIREWORKS = 75 / 100"
definition gravity :: real where "gravity = 650"
definition airDrag :: real where "airDrag = 9 / 10000"
definition BASE_MAX_ROCKETS :: int where "BASE_MAX_ROCKETS = 2"
definition BASE_MAX_PARTICLES :: int where "BASE_MAX_PARTICLES = 50"
definition BASE_MAX_SMOKE :: int where "BASE_MAX_SMOKE = 28"
definition IGNORE_CLICKS_MS :: real where "IGNORE_CLICKS_MS = 600"
definition RESUME_IGNORE_CLICKS_MS :: real where "RESUME_IGNORE_CLICKS_MS = 250"
definition AUTO_BASE_DESKTOP :: real where "AUTO_BASE_DESKTOP = 1050"
definition AUTO_BASE_MOBILE :: real where "AUTO_BASE_MOBILE = 1600"
definition STREAK_SPEED_THRESHOLD :: real where "STREAK_SPEED_THRESHOLD = 240"
definition TARGET_FPS :: real where "TARGET_FPS = 60"
definition MIN_QUALITY :: real where "MIN_QUALITY = 55 / 100"
definition MAX_QUALITY :: real where "MAX_QUALITY = 1"
definition FPS_EMA :: real where "FPS_EMA = 8 / 100"
definition QUALITY_EMA :: real where "QUALITY_EMA = 45 / 1000"
definition RESIZE_CHECK_MS :: real where "RESIZE_CHECK_MS = 1200"

subsection \<open>Entities\<close>

text \<open>The \<open>kind\<close> strings of the script. A rocket carries the pattern of its burst, a
  particle the way it is simulated and drawn.\<close>

datatype burst_kind = Peony | Ring | Palm | Crackle

datatype particle_kind = Spark | Ember | CrackleSpark | Comet

text \<open>The object literals of \<open>allocRocket\<close>, \<open>baseParticle\<close> and \<open>allocSmoke\<close>. Field
  \<open>x\<close> of a rocket is \<open>r_x\<close>, of a particle \<open>p_x\<close>, of a smoke puff \<open>s_x\<close>.\<close>

record rocket =
  r_x :: real
  r_y :: real
  r_px :: real
  r_py :: real
  r_vx :: real
  r_vy :: real
  r_targetY :: real
  r_hue :: real
  r_wind :: real
  r_kind :: burst_kind
  r_breakDelay :: real
  r_broke :: bool

record particle =
  p_x :: real
  p_y :: real
  p_px :: real
  p_py :: real
  p_vx :: real
  p_vy :: real
  p_life :: real
  p_maxLife :: real
  p_size :: real
  p_hue :: real
  p_kind :: particle_kind
  p_twPhase :: real
  p_twAmp :: real
  p_dragMul :: real
  p_gravMul :: real
  p_windMul :: real
  p_crackleTimer :: real
  p_heat :: real

record smoke =
  s_x :: real
  s_y :: real
  s_vx :: real
  s_vy :: real
  s_life :: real
  s_maxLife :: real
  s_r :: real
  s_a :: real

subsection \<open>Timers and the module state\<close>

text \<open>
  The two kinds of callback the script hands to \<open>setTimeout\<close>. A celebration timer
  (set by \<open>start\<close>) holds the two factors by which it multiplies the width and height it
  finds when it fires. A secondary break (set by \<open>explodeBurst\<close>) holds the captured
  \<open>x\<close>, \<open>y\<close>, \<open>dx\<close>, \<open>dy\<close> and \<open>hue\<close>.
\<close>

datatype timer =
  CelebrationBurst real real
  | SecondaryBreak real real real real real

text \<open>
  The module variables. \<open>view_w\<close>, \<open>view_h\<close> are the script's \<open>w\<close> and \<open>h\<close>.
  \<open>rafSeq\<close> numbers the handles that \<open>requestAnimationFrame\<close> returns, \<open>timers\<close> holds
  the pending \<open>setTimeout\<close> callbacks with their delays, \<open>smokeSprite\<close> says whether the
  sprite canvas could be built. \<open>Math.random\<close> is a fixed sequence \<open>rnd\<close> of numbers read
  at position \<open>rpos\<close>.
\<close>

record fw =
  view_w :: real
  view_h :: real
  dpr :: real
  running :: bool
  inited :: bool
  stepRafId :: "nat option"
  launchRafId :: "nat option"
  rafSeq :: nat
  lastTs :: "real option"
  lastLaunch :: real
  ignoreClicksUntil :: real
  smokeParity :: nat
  rockets :: "rocket list"
  particles :: "particle list"
  smokePuffs :: "smoke list"
  rocketPool :: "rocket list"
  particlePool :: "particle list"
  smokePool :: "smoke list"
  fpsSmoothed :: real
  quality :: real
  lastQualityTs :: real
  lastResizeQualityCheck :: real
  popIndex :: nat
  audioUnlocked :: bool
  lastPopMs :: real
  currentWind :: real
  smokeSprite :: bool
  timers :: "(real \<times> timer) list"
  rnd :: "nat \<Rightarrow> real"
  rpos :: nat

text \<open>What the browser supplies when a callback runs.\<close>

record env =
  nowMs :: real
  heroWidth :: real
  heroHeight :: real
  innerWidth :: real
  innerHeight :: real
  devicePixelRatio :: real
  sfxEnabled :: bool

subsection \<open>Random numbers\<close>

text \<open>\<open>Math.random()\<close> returns the next number of the sequence; \<open>rand(min, max)\<close> scales it.\<close>

definition Math_random :: "fw \<Rightarrow> real \<times> fw" where
  "Math_random s = (rnd s (rpos s), s\<lparr>rpos := rpos s + 1\<rparr>)"

definition rand :: "real \<Rightarrow> real \<Rightarrow> fw \<Rightarrow> real \<times> fw" where
  "rand lo hi s = (let (u, s1) = Math_random s in (u * (hi - lo) + lo, s1))"

definition randomHue :: "fw \<Rightarrow> real \<times> fw" where
  "randomHue s = rand 0 360 s"

definition qualityWind :: "fw \<Rightarrow> real \<times> fw" where
  "qualityWind s = rand (- 16) 16 s"

text \<open>\<open>Math.random\<close> promises a number in \<open>[0, 1)\<close>.\<close>

definition rng_ok :: "fw \<Rightarrow> bool" where
  "rng_ok s = (\<forall>n. 0 \<le> rnd s n \<and> rnd s n < 1)"

subsection \<open>Adaptive quality governor: the derived caps\<close>

definition qualityFromFps :: "real \<Rightarrow> real" where
  "qualityFromFps fps =
     (let ratio = clamp (fps / TARGET_FPS) 0 1;
          shaped = ratio powr 0.78
      in clamp shaped MIN_QUALITY MAX_QUALITY)"

definition maxRocketsCap :: "fw \<Rightarrow> int" where
  "maxRocketsCap s =
     (let q = quality s;
          v = js_round (of_int BASE_MAX_ROCKETS * lerp 0.62 1.0 q)
      in clamp v 1 BASE_MAX_ROCKETS)"

definition maxParticlesCap :: "fw \<Rightarrow> int" where
  "maxParticlesCap s =
     (let q = quality s;
          v = \<lfloor>of_int BASE_MAX_PARTICLES * lerp 0.55 1.0 q\<rfloor>
      in clamp v 22 BASE_MAX_PARTICLES)"

definition maxSmokeCap :: "fw \<Rightarrow> int" where
  "maxSmokeCap s =
     (let q = quality s;
          v = \<lfloor>of_int BASE_MAX_SMOKE * lerp 0.55 1.0 q\<rfloor>
      in clamp v 10 BASE_MAX_SMOKE)"

definition smokeParityEnabled :: "fw \<Rightarrow> bool" where
  "smokeParityEnabled s = (quality s < 0.92)"

definition launchQualityFactor :: "fw \<Rightarrow> real" where
  "launchQualityFactor s = lerp 0.78 1.0 (quality s)"

subsection \<open>Sizing\<close>

definition safeHeroRect :: "env \<Rightarrow> real \<times> real" where
  "safeHeroRect e =
     (let width = (if heroWidth e > 2 then heroWidth e else innerWidth e);
          height = (if heroHeight e > 2 then heroHeight e else innerHeight e)
      in (width, height))"

definition computeDprCap :: "real \<Rightarrow> fw \<Rightarrow> real" where
  "computeDprCap rectWidth s =
     (let baseCap = (if rectWidth < 600 then 1.10 else 1.35);
          scaled = baseCap * lerp 0.74 1.0 (quality s)
      in clamp scaled 1.0 baseCap)"

definition resize :: "env \<Rightarrow> fw \<Rightarrow> fw" where
  "resize e s =
     (let (width, height) = safeHeroRect e;
          nativeDpr = (if devicePixelRatio e = 0 then 1 else devicePixelRatio e);
          dprCap = computeDprCap width s
      in s\<lparr>dpr := min dprCap nativeDpr,
            view_w := of_int \<lfloor>width\<rfloor>,
            view_h := of_int \<lfloor>height\<rfloor>\<rparr>)"

subsection \<open>Entity pools\<close>

text \<open>A pool is an array used as a stack: \<open>push\<close> appends, \<open>pop\<close> takes the last element.
  \<open>pool.pop() || {...}\<close> builds the literal only when the pool is empty.\<close>

definition newRocket :: rocket where
  "newRocket = \<lparr>r_x = 0, r_y = 0, r_px = 0, r_py = 0, r_vx = 0, r_vy = 0,
     r_targetY = 0, r_hue = 0, r_wind = 0, r_kind = Peony, r_breakDelay = 0,
     r_broke = False\<rparr>"

definition allocRocket :: "fw \<Rightarrow> rocket \<times> fw" where
  "allocRocket s =
     (if rocketPool s = [] then (newRocket, s)
      else (last (rocketPool s), s\<lparr>rocketPool := butlast (rocketPool s)\<rparr>))"

definition freeRocket :: "rocket \<Rightarrow> fw \<Rightarrow> fw" where
  "freeRocket r s = s\<lparr>rocketPool := rocketPool s @ [r]\<rparr>"

definition baseParticle :: particle where
  "baseParticle = \<lparr>p_x = 0, p_y = 0, p_px = 0, p_py = 0, p_vx = 0, p_vy = 0,
     p_life = 60, p_maxLife = 60, p_size = 1.6, p_hue = 0, p_kind = Spark,
     p_twPhase = 0, p_twAmp = 1.0, p_dragMul = 1.0, p_gravMul = 1.0, p_windMul = 1.0,
     p_crackleTimer = 0, p_heat = 1.0\<rparr>"

definition allocParticle :: "fw \<Rightarrow> particle \<times> fw" where
  "allocParticle s =
     (if particlePool s = [] then (baseParticle, s)
      else (last (particlePool s), s\<lparr>particlePool := butlast (particlePool s)\<rparr>))"

definition freeParticle :: "particle \<Rightarrow> fw \<Rightarrow> fw" where
  "freeParticle p s = s\<lparr>particlePool := particlePool s @ [p]\<rparr>"

definition newSmoke :: smoke where
  "newSmoke = \<lparr>s_x = 0, s_y = 0, s_vx = 0, s_vy = 0, s_life = 60, s_maxLife = 60,
     s_r = 28, s_a = 0.12\<rparr>"

definition allocSmoke :: "fw \<Rightarrow> smoke \<times> fw" where
  "allocSmoke s =
     (if smokePool s = [] then (newSmoke, s)
      else (last (smokePool s), s\<lparr>smokePool := butlast (smokePool s)\<rparr>))"

definition freeSmoke :: "smoke \<Rightarrow> fw \<Rightarrow> fw" where
  "freeSmoke p s = s\<lparr>smokePool := smokePool s @ [p]\<rparr>"

subsection \<open>Spawning\<close>

definition chooseBurstKind :: "fw \<Rightarrow> burst_kind \<times> fw" where
  "chooseBurstKind s =
     (let (r, s1) = Math_random s
      in (if r < 0.52 then Peony
          else if r < 0.72 then Ring
          else if r < 0.88 then Palm
          else Crackle, s1))"

text \<open>\<open>spawnRocket(x)\<close>: the argument is \<open>None\<close> when the caller gives no number.\<close>

definition spawnRocket :: "real option \<Rightarrow> fw \<Rightarrow> fw" where
  "spawnRocket xo s =
     (if int (length (rockets s)) \<ge> maxRocketsCap s then s
      else if view_w s < 10 \<or> view_h s < 10 then s
      else
        let (r, s1) = allocRocket s;
            (hue, s2) = randomHue s1;
            (startX, s3) = (case xo of Some v \<Rightarrow> (v, s2)
                            | None \<Rightarrow> rand (view_w s * 0.15) (view_w s * 0.85) s2);
            startY = view_h s + 10;
            (speed, s4) = rand 900 1200 s3;
            (vx, s5) = rand (- 80) 80 s4;
            vy = - speed;
            (targetY, s6) = rand (view_h s * LOWER_LINE_TARGET_FIREWORKS)
                                 (view_h s * UPPER_LINE_TARGET_FIREWORKS) s5;
            (kind, s7) = chooseBurstKind s6;
            (breakDelay, s8) = rand 0.06 0.14 s7;
            r' = r\<lparr>r_x := startX, r_y := startY, r_px := startX, r_py := startY,
                   r_vx := vx, r_vy := vy, r_targetY := targetY, r_hue := hue,
                   r_wind := currentWind s, r_kind := kind,
                   r_breakDelay := breakDelay, r_broke := False\<rparr>
        in s8\<lparr>rockets := rockets s8 @ [r']\<rparr>)"

definition roomForParticles :: "fw \<Rightarrow> int" where
  "roomForParticles s = max 0 (maxParticlesCap s - int (length (particles s)))"

definition pushParticle :: "particle \<Rightarrow> fw \<Rightarrow> fw" where
  "pushParticle p s =
     (if int (length (particles s)) \<ge> maxParticlesCap s then freeParticle p s
      else s\<lparr>particles := particles s @ [p]\<rparr>)"

definition makeParticle ::
  "real \<Rightarrow> real \<Rightarrow> real \<Rightarrow> real \<Rightarrow> real \<Rightarrow> real \<Rightarrow> real \<Rightarrow> particle_kind \<Rightarrow> fw \<Rightarrow> particle \<times> fw"
where
  "makeParticle x y vx vy life sz hue kind s =
     (let (p, s1) = allocParticle s;
          (twPhase, s2) = rand 0 (pi * 2) s1;
          (twAmp, s3) = rand 0.85 1.15 s2;
          (dragMul, s4) = rand 0.92 1.10 s3;
          (gravMul, s5) = rand 0.92 1.08 s4;
          (windMul, s6) = rand 0.85 1.15 s5;
          (crackleTimer, s7) = rand 0.02 0.07 s6;
          (heat, s8) = rand 0.85 1.15 s7
      in (p\<lparr>p_x := x, p_y := y, p_px := x, p_py := y, p_vx := vx, p_vy := vy,
             p_life := life, p_maxLife := life, p_size := sz, p_hue := hue,
             p_kind := kind, p_twPhase := twPhase, p_twAmp := twAmp,
             p_dragMul := dragMul, p_gravMul := gravMul, p_windMul := windMul,
             p_crackleTimer := crackleTimer, p_heat := heat\<rparr>, s8))"

definition spawnSmoke :: "real \<Rightarrow> real \<Rightarrow> fw \<Rightarrow> fw" where
  "spawnSmoke x y s =
     (if \<not> smokeSprite s then s
      else if int (length (smokePuffs s)) \<ge> maxSmokeCap s then s
      else
        let (p, s1) = allocSmoke s;
            (vx, s2) = rand (- 8) 8 s1;
            (vy, s3) = rand (- 10) (- 2) s2;
            (life, s4) = rand 50 80 s3;
            (r, s5) = rand 22 44 s4;
            (a, s6) = rand 0.06 0.12 s5;
            p' = p\<lparr>s_x := x, s_y := y, s_vx := vx, s_vy := vy, s_life := life,
                   s_maxLife := life, s_r := r, s_a := a\<rparr>
        in s6\<lparr>smokePuffs := smokePuffs s6 @ [p']\<rparr>)"

subsection \<open>Loops\<close>

text \<open>\<open>for (let i = lo; i < n; i++) body(i)\<close>, the loop of every burst pattern.\<close>

function forLoop :: "nat \<Rightarrow> nat \<Rightarrow> (nat \<Rightarrow> 'a \<Rightarrow> 'a) \<Rightarrow> 'a \<Rightarrow> 'a" where
  "forLoop i n body s = (if i < n then forLoop (Suc i) n body (body i s) else s)"
  by pat_completeness auto
termination
  by (relation "measure (\<lambda>(i, n, body, s). n - i)") auto

declare forLoop.simps [simp del]

text \<open>\<open>for (let i = n - 1; i >= 0; i--) body(i)\<close>, the loop of the simulation step over
  each live collection.\<close>

primrec downLoop :: "nat \<Rightarrow> (nat \<Rightarrow> 'a \<Rightarrow> 'a) \<Rightarrow> 'a \<Rightarrow> 'a" where
  "downLoop 0 body s = s"
| "downLoop (Suc i) body s = downLoop i body (body i s)"

subsection \<open>Sound\<close>

text \<open>\<open>unlockSfxOnce\<close> and \<open>playPop\<close>, as far as they touch the module variables: the pool
  of audio elements has two entries, and a pop that is played draws one random number
  for its playback rate.\<close>

definition unlockSfxOnce :: "fw \<Rightarrow> fw" where
  "unlockSfxOnce s = (if audioUnlocked s then s else s\<lparr>audioUnlocked := True\<rparr>)"

definition playPop :: "env \<Rightarrow> fw \<Rightarrow> fw" where
  "playPop e s =
     (if \<not> audioUnlocked s \<or> \<not> sfxEnabled e then s
      else
        let now = nowMs e
        in if now - lastPopMs s < 120 then s
           else
             let s1 = s\<lparr>lastPopMs := now, popIndex := (popIndex s + 1) mod 2\<rparr>;
                 (rate, s2) = rand 0.92 1.08 s1
             in s2)"

subsection \<open>Burst patterns\<close>

text \<open>One iteration of the primary loop of \<open>explodePeony\<close>, and one of its glitter loop.\<close>

definition peonySpark :: "real \<Rightarrow> real \<Rightarrow> real \<Rightarrow> nat \<Rightarrow> fw \<Rightarrow> fw" where
  "peonySpark x y hue i s =
     (let (ang, s1) = rand 0 (pi * 2) s;
          (a, s2) = rand 280 700 s1;
          (b, s3) = rand 0.85 1.10 s2;
          sp = a * b;
          vx = cos ang * sp;
          vy = sin ang * sp;
          (life, s4) = rand 52 92 s3;
          (sz, s5) = rand 1.0 2.4 s4;
          (j, s6) = rand (- 10) 10 s5;
          hh = js_mod (hue + j + 360) 360;
          (u, s7) = Math_random s6;
          kind = (if u < 0.10 then Comet else Spark);
          (p, s8) = makeParticle x y vx vy life sz hh kind s7
      in pushParticle p s8)"

definition peonyGlitter :: "real \<Rightarrow> real \<Rightarrow> real \<Rightarrow> nat \<Rightarrow> fw \<Rightarrow> fw" where
  "peonyGlitter x y hue i s =
     (let (ang, s1) = rand 0 (pi * 2) s;
          (sp, s2) = rand 120 260 s1;
          vx = cos ang * sp;
          vy = sin ang * sp;
          (life, s3) = rand 24 55 s2;
          (sz, s4) = rand 0.9 1.5 s3;
          (j, s5) = rand (- 6) 6 s4;
          hh = js_mod (hue + j + 360) 360;
          (p, s6) = makeParticle x y vx vy life sz hh Spark s5
      in pushParticle p s6)"

definition explodePeony :: "real \<Rightarrow> real \<Rightarrow> real \<Rightarrow> fw \<Rightarrow> fw" where
  "explodePeony x y hue s =
     (let room = roomForParticles s
      in if room \<le> 0 then s
         else
           let (c, s1) = rand 110 160 s;
               count = min \<lfloor>c\<rfloor> room;
               s2 = forLoop 0 (nat count) (peonySpark x y hue) s1;
               glitterRoom = roomForParticles s2;
               (g, s3) = rand 26 52 s2;
               glitterCount = min \<lfloor>g\<rfloor> glitterRoom
           in forLoop 0 (nat glitterCount) (peonyGlitter x y hue) s3)"

text \<open>\<open>explodeRing\<close>: the ring loop divides the circle by the admitted \<open>count\<close>.\<close>

definition ringSpark :: "real \<Rightarrow> real \<Rightarrow> real \<Rightarrow> int \<Rightarrow> real \<Rightarrow> nat \<Rightarrow> fw \<Rightarrow> fw" where
  "ringSpark x y hue count jitter i s =
     (let t = real i / of_int count;
          (j, s1) = rand (- jitter) jitter s;
          ang = t * pi * 2 + j;
          (sp, s2) = rand 360 640 s1;
          vx = cos ang * sp;
          vy = sin ang * sp;
          (life, s3) = rand 45 80 s2;
          (sz, s4) = rand 1.0 2.1 s3;
          (k, s5) = rand (- 8) 8 s4;
          hh = js_mod (hue + k + 360) 360;
          (p, s6) = makeParticle x y vx vy life sz hh Spark s5
      in pushParticle p s6)"

definition ringCore :: "real \<Rightarrow> real \<Rightarrow> real \<Rightarrow> nat \<Rightarrow> fw \<Rightarrow> fw" where
  "ringCore x y hue i s =
     (let (ang, s1) = rand 0 (pi * 2) s;
          (sp, s2) = rand 80 180 s1;
          (life, s3) = rand 22 42 s2;
          (sz, s4) = rand 0.9 1.4 s3;
          (p, s5) = makeParticle x y (cos ang * sp) (sin ang * sp) life sz hue Spark s4
      in pushParticle p s5)"

definition explodeRing :: "real \<Rightarrow> real \<Rightarrow> real \<Rightarrow> fw \<Rightarrow> fw" where
  "explodeRing x y hue s =
     (let room = roomForParticles s
      in if room \<le> 0 then s
         else
           let (c, s1) = rand 90 130 s;
               count = min \<lfloor>c\<rfloor> room;
               (jitter, s2) = rand 0.08 0.18 s1;
               s3 = forLoop 0 (nat count) (ringSpark x y hue count jitter) s2;
               coreRoom = roomForParticles s3;
               (g, s4) = rand 18 34 s3;
               coreCount = min \<lfloor>g\<rfloor> coreRoom
           in forLoop 0 (nat coreCount) (ringCore x y hue) s4)"

text \<open>\<open>explodePalm\<close>: two nested loops that also stop when \<open>made\<close> reaches \<open>total\<close>; the
  counter \<open>made\<close> travels with the state.\<close>

definition palmSpark :: "real \<Rightarrow> real \<Rightarrow> real \<Rightarrow> real \<Rightarrow> int \<Rightarrow> nat \<Rightarrow> fw \<Rightarrow> fw" where
  "palmSpark x y armAng armHue perArm i s =
     (let k = real i / of_int perArm;
          (j, s1) = rand (- 0.12) 0.12 s;
          ang = armAng + j;
          (a, s2) = rand 280 680 s1;
          sp = a * (0.8 + 0.4 * k);
          vx = cos ang * sp;
          vy = sin ang * sp;
          (l, s3) = rand 52 88 s2;
          life = l + k * 10;
          (sz, s4) = rand 1.1 2.3 s3;
          (p, s5) = makeParticle x y vx vy life sz armHue Comet s4
      in pushParticle p s5)"

function palmArm ::
  "real \<Rightarrow> real \<Rightarrow> real \<Rightarrow> real \<Rightarrow> int \<Rightarrow> int \<Rightarrow> nat \<Rightarrow> nat \<times> fw \<Rightarrow> nat \<times> fw"
where
  "palmArm x y armAng armHue perArm tot i (made, s) =
     (if int i < perArm \<and> int made < tot
      then palmArm x y armAng armHue perArm tot (Suc i)
             (Suc made, palmSpark x y armAng armHue perArm i s)
      else (made, s))"
  by pat_completeness auto
termination
  by (relation "measure (\<lambda>(x, y, armAng, armHue, perArm, tot, i, ms). nat (perArm - int i))") auto

declare palmArm.simps [simp del]

function palmArms ::
  "real \<Rightarrow> real \<Rightarrow> real \<Rightarrow> int \<Rightarrow> int \<Rightarrow> int \<Rightarrow> nat \<Rightarrow> nat \<times> fw \<Rightarrow> nat \<times> fw"
where
  "palmArms x y hue arms perArm tot a (made, s) =
     (if int a < arms \<and> int made < tot
      then
        let (armAng, s1) = rand 0 (pi * 2) s;
            (j, s2) = rand (- 12) 12 s1;
            armHue = js_mod (hue + j + 360) 360
        in palmArms x y hue arms perArm tot (Suc a)
             (palmArm x y armAng armHue perArm tot 0 (made, s2))
      else (made, s))"
  by pat_completeness auto
termination
  by (relation "measure (\<lambda>(x, y, hue, arms, perArm, tot, a, ms). nat (arms - int a))") auto

declare palmArms.simps [simp del]

definition explodePalm :: "real \<Rightarrow> real \<Rightarrow> real \<Rightarrow> fw \<Rightarrow> fw" where
  "explodePalm x y hue s =
     (let room = roomForParticles s
      in if room \<le> 0 then s
         else
           let (a, s1) = rand 6 10 s;
               arms = \<lfloor>a\<rfloor>;
               (b, s2) = rand 14 20 s1;
               perArm = max 10 \<lfloor>b\<rfloor>;
               tot = min (arms * perArm) room
           in snd (palmArms x y hue arms perArm tot 0 (0, s2)))"

definition crackleSpark :: "real \<Rightarrow> real \<Rightarrow> real \<Rightarrow> nat \<Rightarrow> fw \<Rightarrow> fw" where
  "crackleSpark x y hue i s =
     (let (ang, s1) = rand 0 (pi * 2) s;
          (sp, s2) = rand 220 620 s1;
          vx = cos ang * sp;
          vy = sin ang * sp;
          (life, s3) = rand 40 78 s2;
          (sz, s4) = rand 1.0 2.0 s3;
          (j, s5) = rand (- 10) 10 s4;
          hh = js_mod (hue + j + 360) 360;
          (p, s6) = makeParticle x y vx vy life sz hh CrackleSpark s5;
          (ct, s7) = rand 0.02 0.07 s6
      in pushParticle (p\<lparr>p_crackleTimer := ct\<rparr>) s7)"

definition explodeCrackle :: "real \<Rightarrow> real \<Rightarrow> real \<Rightarrow> fw \<Rightarrow> fw" where
  "explodeCrackle x y hue s =
     (let room = roomForParticles s
      in if room \<le> 0 then s
         else
           let (c, s1) = rand 90 140 s;
               count = min \<lfloor>c\<rfloor> room
           in forLoop 0 (nat count) (crackleSpark x y hue) s1)"

subsection \<open>Bursts\<close>

text \<open>\<open>explodeBurst\<close>. The \<open>setTimeout\<close> of the secondary break appends its callback and
  delay to \<open>timers\<close>.\<close>

definition explodeBurst :: "real \<Rightarrow> real \<Rightarrow> real \<Rightarrow> burst_kind \<Rightarrow> env \<Rightarrow> fw \<Rightarrow> fw" where
  "explodeBurst x y hue kind e s =
     (let s1 = playPop e s;
          smokeChance = 0.85 * lerp 0.55 1.0 (quality s1);
          (u, s2) = Math_random s1;
          s3 = (if u < smokeChance then spawnSmoke x y s2 else s2);
          s4 = (case kind of
                  Ring \<Rightarrow> explodeRing x y hue s3
                | Palm \<Rightarrow> explodePalm x y hue s3
                | Crackle \<Rightarrow> explodeCrackle x y hue s3
                | Peony \<Rightarrow> explodePeony x y hue s3);
          breakChance = 0.45 * lerp 0.55 1.0 (quality s4);
          (v, s5) = Math_random s4
      in if v < breakChance \<and> roomForParticles s5 > 24
         then
           let (dx, s6) = rand (- 24) 24 s5;
               (dy, s7) = rand (- 18) 18 s6;
               (d, s8) = rand 70 140 s7
           in s8\<lparr>timers := timers s8 @ [(of_int \<lfloor>d\<rfloor>, SecondaryBreak x y dx dy hue)]\<rparr>
         else s5)"

text \<open>\<open>burst(x = w * 0.5, y = h * 0.6)\<close>: an argument left out is \<open>None\<close>.\<close>

definition burst :: "real option \<Rightarrow> real option \<Rightarrow> env \<Rightarrow> fw \<Rightarrow> fw" where
  "burst xo yo e s =
     (let x = (case xo of Some v \<Rightarrow> v | None \<Rightarrow> view_w s * 0.5);
          y = (case yo of Some v \<Rightarrow> v | None \<Rightarrow> view_h s * 0.6)
      in if view_w s < 10 \<or> view_h s < 10 then s
         else
           let (hue, s1) = randomHue s;
               (kind, s2) = chooseBurstKind s1
           in explodeBurst x y hue kind e s2)"

text \<open>What a timer does when the browser delivers it.\<close>

fun fireTimer :: "timer \<Rightarrow> env \<Rightarrow> fw \<Rightarrow> fw" where
  "fireTimer (CelebrationBurst fx fy) e s =
     burst (Some (view_w s * fx)) (Some (view_h s * fy)) e s"
| "fireTimer (SecondaryBreak x y dx dy hue) e s =
     (if \<not> running s then s
      else
        let (j, s1) = rand (- 14) 14 s;
            s2 = explodePeony (x + dx) (y + dy) (js_mod (hue + j + 360) 360) s1;
            (u, s3) = Math_random s2
        in if u < 0.5 * lerp 0.55 1.0 (quality s3) then spawnSmoke (x + dx) (y + dy) s3
           else s3)"

subsection \<open>Main loop\<close>

definition updateQuality :: "real \<Rightarrow> real \<Rightarrow> env \<Rightarrow> fw \<Rightarrow> fw" where
  "updateQuality ts deltaMs e s =
     (let d = clamp deltaMs 6 120;
          fpsInstant = 1000 / d;
          s1 = s\<lparr>fpsSmoothed := fpsSmoothed s + (fpsInstant - fpsSmoothed s) * FPS_EMA\<rparr>;
          s2 = (if ts - lastQualityTs s1 > 220
                then
                  let fpsForDecision = min (fpsSmoothed s1) 62;
                      qTarget = qualityFromFps fpsForDecision;
                      q = quality s1 + (qTarget - quality s1) * QUALITY_EMA
                  in s1\<lparr>lastQualityTs := ts, quality := clamp q MIN_QUALITY MAX_QUALITY\<rparr>
                else s1)
      in if ts - lastResizeQualityCheck s2 > RESIZE_CHECK_MS
         then
           let s3 = s2\<lparr>lastResizeQualityCheck := ts\<rparr>
           in if running s3 then resize e s3 else s3
         else s2)"

text \<open>The elapsed time that \<open>step(ts)\<close> measures and the time-step it simulates with:
  \<open>lastTs\<close> is set to \<open>ts\<close> first when it is \<open>null\<close>.\<close>

definition stepDeltaMs :: "real \<Rightarrow> fw \<Rightarrow> real" where
  "stepDeltaMs ts s = ts - (case lastTs s of None \<Rightarrow> ts | Some t \<Rightarrow> t)"

definition stepDt :: "real \<Rightarrow> fw \<Rightarrow> real" where
  "stepDt ts s = clamp (stepDeltaMs ts s / 1000) 0 0.033"

text \<open>The body of the smoke loop for the puff at index \<open>i\<close>.\<close>

definition stepSmoke :: "real \<Rightarrow> nat \<Rightarrow> fw \<Rightarrow> fw" where
  "stepSmoke dt i s =
     (let p = smokePuffs s ! i;
          p1 = p\<lparr>s_x := s_x p + (s_vx p + currentWind s * 0.12) * dt,
                 s_y := s_y p + s_vy p * dt,
                 s_life := s_life p - 60 * dt\<rparr>
      in if s_life p1 \<le> 0 \<or> s_x p1 < - 200 \<or> s_x p1 > view_w s + 200
            \<or> s_y p1 < - 200 \<or> s_y p1 > view_h s + 240
         then freeSmoke p1 (s\<lparr>smokePuffs := take i (smokePuffs s) @ drop (Suc i) (smokePuffs s)\<rparr>)
         else s\<lparr>smokePuffs := (smokePuffs s)[i := p1]\<rparr>)"

text \<open>The body of the rocket loop. \<open>drawRocket\<close> leaves the current position in \<open>px\<close>,
  \<open>py\<close>.\<close>

definition stepRocket :: "real \<Rightarrow> env \<Rightarrow> nat \<Rightarrow> fw \<Rightarrow> fw" where
  "stepRocket dt e i s =
     (let r = rockets s ! i;
          ax = (- airDrag * r_vx r * \<bar>r_vx r\<bar>) + r_wind r * 0.10;
          ay = (- airDrag * r_vy r * \<bar>r_vy r\<bar>) + gravity;
          r1 = r\<lparr>r_vx := r_vx r + ax * dt, r_vy := r_vy r + ay * dt\<rparr>;
          r2 = r1\<lparr>r_x := r_x r1 + r_vx r1 * dt, r_y := r_y r1 + r_vy r1 * dt\<rparr>;
          r3 = r2\<lparr>r_px := r_x r2, r_py := r_y r2\<rparr>;
          shouldExplode = (r_y r3 \<le> r_targetY r3 \<or> r_vy r3 \<ge> 0);
          removed = s\<lparr>rockets := take i (rockets s) @ drop (Suc i) (rockets s)\<rparr>
      in if shouldExplode \<and> \<not> r_broke r3
         then explodeBurst (r_x r3) (r_y r3) (r_hue r3) (r_kind r3) e
                (freeRocket (r3\<lparr>r_broke := True\<rparr>) removed)
         else if r_x r3 < - 120 \<or> r_x r3 > view_w s + 120 \<or> r_y r3 < - 180
         then freeRocket r3 removed
         else s\<lparr>rockets := (rockets s)[i := r3]\<rparr>)"

text \<open>One micro-spark of a crackle particle \<open>p\<close>, and the crackle block of the particle
  loop: it returns the parent with its timer and the state with the sparks added.\<close>

definition microSpark :: "particle \<Rightarrow> nat \<Rightarrow> fw \<Rightarrow> fw" where
  "microSpark p k s =
     (let (ang, s1) = rand 0 (pi * 2) s;
          (sp, s2) = rand 70 170 s1;
          vx = p_vx p * 0.08 + cos ang * sp;
          vy = p_vy p * 0.08 + sin ang * sp;
          (j, s3) = rand (- 8) 8 s2;
          hh = js_mod (p_hue p + j + 360) 360;
          (life, s4) = rand 16 28 s3;
          (sz, s5) = rand 0.9 1.4 s4;
          (q, s6) = makeParticle (p_x p) (p_y p) vx vy life sz hh Spark s5
      in pushParticle q s6)"

definition crackleSpawn :: "real \<Rightarrow> particle \<Rightarrow> fw \<Rightarrow> particle \<times> fw" where
  "crackleSpawn dt p s =
     (if p_kind p = CrackleSpark
      then
        let p1 = p\<lparr>p_crackleTimer := p_crackleTimer p - dt\<rparr>
        in if p_crackleTimer p1 \<le> 0 \<and> roomForParticles s > 6
           then
             let (ct, s1) = rand 0.02 0.07 s;
                 p2 = p1\<lparr>p_crackleTimer := ct\<rparr>;
                 microScale = lerp 0.55 1.0 (quality s1);
                 (m, s2) = rand 1 3 s1;
                 microCount = \<lfloor>m * microScale\<rfloor>
             in (p2, forLoop 0 (nat microCount) (microSpark p2) s2)
           else (p1, s)
      else (p, s))"

text \<open>\<open>particleAlpha\<close> and what \<open>drawParticle\<close> writes back: the previous position, unless
  the particle is too faint to be drawn.\<close>

definition particleAlpha :: "particle \<Rightarrow> real \<Rightarrow> real" where
  "particleAlpha p t =
     (let tw = 0.72 + 0.28 * sin (p_twPhase p + (1 - t) * 10.5);
          base = t * tw * p_twAmp p
      in if p_kind p = Ember then base * 0.65
         else if p_kind p = CrackleSpark then base * 0.85
         else if p_kind p = Comet then base * 0.95
         else base)"

definition drawParticle :: "particle \<Rightarrow> particle" where
  "drawParticle p =
     (let t = p_life p / p_maxLife p
      in if t \<le> 0 then p
         else if particleAlpha p t \<le> 0.01 then p
         else p\<lparr>p_px := p_x p, p_py := p_y p\<rparr>)"

text \<open>The body of the particle loop.\<close>

definition stepParticle :: "real \<Rightarrow> nat \<Rightarrow> fw \<Rightarrow> fw" where
  "stepParticle dt i s =
     (let p = particles s ! i;
          drag = airDrag * p_dragMul p;
          ax = (- drag * p_vx p * \<bar>p_vx p\<bar>) + currentWind s * 0.08 * p_windMul p;
          ay = (- drag * p_vy p * \<bar>p_vy p\<bar>) + gravity * p_gravMul p;
          p1 = p\<lparr>p_vx := p_vx p + ax * dt, p_vy := p_vy p + ay * dt\<rparr>;
          p2 = p1\<lparr>p_x := p_x p1 + p_vx p1 * dt, p_y := p_y p1 + p_vy p1 * dt\<rparr>;
          (p3, s1) = crackleSpawn dt p2 s;
          p4 = (if p_kind p3 = Comet
                then p3\<lparr>p_heat := max 0.35 (p_heat p3 - dt * 0.9),
                        p_size := p_size p3 * (1 - dt * 0.15)\<rparr>
                else p3);
          p5 = p4\<lparr>p_life := p_life p4 - 60 * dt\<rparr>;
          p6 = drawParticle p5
      in if p_life p6 \<le> 0 \<or> p_x p6 < - 160 \<or> p_x p6 > view_w s1 + 160
            \<or> p_y p6 > view_h s1 + 220
         then freeParticle p6
                (s1\<lparr>particles := take i (particles s1) @ drop (Suc i) (particles s1)\<rparr>)
         else s1\<lparr>particles := (particles s1)[i := p6]\<rparr>)"

text \<open>\<open>requestAnimationFrame\<close> hands out the next handle.\<close>

definition requestStep :: "fw \<Rightarrow> fw" where
  "requestStep s = s\<lparr>stepRafId := Some (rafSeq s), rafSeq := rafSeq s + 1\<rparr>"

definition requestLaunch :: "fw \<Rightarrow> fw" where
  "requestLaunch s = s\<lparr>launchRafId := Some (rafSeq s), rafSeq := rafSeq s + 1\<rparr>"

definition step :: "real \<Rightarrow> env \<Rightarrow> fw \<Rightarrow> fw" where
  "step ts e s =
     (if \<not> running s then s
      else
        let deltaMs = stepDeltaMs ts s;
            dt = stepDt ts s;
            s1 = updateQuality ts deltaMs e (s\<lparr>lastTs := Some ts\<rparr>);
            smokeHalfRate = smokeParityEnabled s1;
            s2 = (if smokeHalfRate then s1\<lparr>smokeParity := smokeParity s1 XOR 1\<rparr> else s1);
            s3 = (if \<not> smokeHalfRate \<or> smokeParity s2 = 0
                  then downLoop (length (smokePuffs s2)) (stepSmoke dt) s2
                  else s2);
            s4 = downLoop (length (rockets s3)) (stepRocket dt e) s3;
            s5 = downLoop (length (particles s4)) (stepParticle dt) s4
        in requestStep s5)"

text \<open>The interval that \<open>autoLaunch\<close> draws on every frame, and \<open>autoLaunch(ts)\<close>.\<close>

definition launchInterval :: "fw \<Rightarrow> real \<times> fw" where
  "launchInterval s =
     (let base = (if view_w s < 600 then AUTO_BASE_MOBILE else AUTO_BASE_DESKTOP);
          qf = launchQualityFactor s;
          intervalBase = base / qf;
          (u, s1) = Math_random s
      in (intervalBase + u * intervalBase, s1))"

definition autoLaunch :: "real \<Rightarrow> fw \<Rightarrow> fw" where
  "autoLaunch ts s =
     (if \<not> running s then s
      else
        let (interval, s1) = launchInterval s;
            s4 = (if ts - lastLaunch s1 > interval
                  then
                    let s2 = spawnRocket None (s1\<lparr>lastLaunch := ts\<rparr>);
                        buddyChance = 0.55 * lerp 0.55 1.0 (quality s2);
                        (v, s3) = Math_random s2
                    in if v < buddyChance then spawnRocket None s3 else s3
                  else s1)
        in requestLaunch s4)"

subsection \<open>Pause, resume, start, stop\<close>

definition stopLoops :: "fw \<Rightarrow> fw" where
  "stopLoops s = s\<lparr>stepRafId := None, launchRafId := None\<rparr>"

definition startLoops :: "fw \<Rightarrow> fw" where
  "startLoops s = requestLaunch (requestStep (stopLoops s))"

definition pause :: "fw \<Rightarrow> fw" where
  "pause s = (if \<not> running s then s else stopLoops (s\<lparr>running := False\<rparr>))"

definition resetPerf :: "fw \<Rightarrow> fw" where
  "resetPerf s = s\<lparr>fpsSmoothed := TARGET_FPS, quality := 1.0, lastQualityTs := 0,
                    lastResizeQualityCheck := 0\<rparr>"

definition resume :: "env \<Rightarrow> fw \<Rightarrow> fw" where
  "resume e s =
     (let s1 = resize e (s\<lparr>running := True\<rparr>);
          s2 = s1\<lparr>lastTs := None, lastLaunch := nowMs e,
                  ignoreClicksUntil := nowMs e + RESUME_IGNORE_CLICKS_MS\<rparr>;
          (wind, s3) = qualityWind s2;
          s4 = s3\<lparr>currentWind := currentWind s3 * 0.6 + wind * 0.4\<rparr>
      in startLoops (resetPerf s4))"

text \<open>\<open>start({ celebrate = true } = {})\<close>: the option is \<open>None\<close> when the caller leaves it
  out. The celebration callbacks read \<open>w\<close> and \<open>h\<close> when they fire.\<close>

definition start :: "bool option \<Rightarrow> env \<Rightarrow> fw \<Rightarrow> fw" where
  "start opt e s =
     (let celebrate = (case opt of Some c \<Rightarrow> c | None \<Rightarrow> True);
          s1 = (resize e s)\<lparr>running := True\<rparr>;
          s2 = s1\<lparr>ignoreClicksUntil := nowMs e + IGNORE_CLICKS_MS\<rparr>;
          s3 = s2\<lparr>lastTs := None, lastLaunch := nowMs e\<rparr>;
          (wind, s4) = qualityWind s3;
          s5 = startLoops (resetPerf (s4\<lparr>currentWind := wind\<rparr>))
      in if celebrate
         then s5\<lparr>timers := timers s5 @
                   [(90, CelebrationBurst 0.50 0.62),
                    (170, CelebrationBurst 0.38 0.58),
                    (240, CelebrationBurst 0.62 0.60)]\<rparr>
         else s5)"

text \<open>The three \<open>while (xs.length) free(xs.pop())\<close> loops of \<open>stop\<close>.\<close>

function drainRockets :: "fw \<Rightarrow> fw" where
  "drainRockets s =
     (if rockets s \<noteq> []
      then drainRockets (freeRocket (last (rockets s)) (s\<lparr>rockets := butlast (rockets s)\<rparr>))
      else s)"
  by pat_completeness auto
termination
  by (relation "measure (\<lambda>s. length (rockets s))") (auto simp: freeRocket_def)

declare drainRockets.simps [simp del]

function drainParticles :: "fw \<Rightarrow> fw" where
  "drainParticles s =
     (if particles s \<noteq> []
      then drainParticles
             (freeParticle (last (particles s)) (s\<lparr>particles := butlast (particles s)\<rparr>))
      else s)"
  by pat_completeness auto
termination
  by (relation "measure (\<lambda>s. length (particles s))") (auto simp: freeParticle_def)

declare drainParticles.simps [simp del]

function drainSmoke :: "fw \<Rightarrow> fw" where
  "drainSmoke s =
     (if smokePuffs s \<noteq> []
      then drainSmoke (freeSmoke (last (smokePuffs s)) (s\<lparr>smokePuffs := butlast (smokePuffs s)\<rparr>))
      else s)"
  by pat_completeness auto
termination
  by (relation "measure (\<lambda>s. length (smokePuffs s))") (auto simp: freeSmoke_def)

declare drainSmoke.simps [simp del]

definition stop :: "env \<Rightarrow> fw \<Rightarrow> fw" where
  "stop e s = resize e (drainSmoke (drainParticles (drainRockets (pause s))))"

subsection \<open>Initialisation and the public interface\<close>

text \<open>The module variables as the script leaves them when it has loaded, for a given
  random sequence and sprite. The last statement of the module draws the first wind.\<close>

definition initial :: "(nat \<Rightarrow> real) \<Rightarrow> bool \<Rightarrow> fw" where
  "initial rs sprite =
     (let s = \<lparr>view_w = 0, view_h = 0, dpr = 1, running = False, inited = False,
               stepRafId = None, launchRafId = None, rafSeq = 0, lastTs = None,
               lastLaunch = 0, ignoreClicksUntil = 0, smokeParity = 0,
               rockets = [], particles = [], smokePuffs = [],
               rocketPool = [], particlePool = [], smokePool = [],
               fpsSmoothed = TARGET_FPS, quality = 1.0, lastQualityTs = 0,
               lastResizeQualityCheck = 0, popIndex = 0, audioUnlocked = False,
               lastPopMs = 0, currentWind = 0, smokeSprite = sprite, timers = [],
               rnd = rs, rpos = 0\<rparr>;
          (wind, s1) = qualityWind s
      in s1\<lparr>currentWind := wind\<rparr>)"

definition initOnce :: "env \<Rightarrow> fw \<Rightarrow> fw" where
  "initOnce e s = (if inited s then s else resize e (s\<lparr>inited := True\<rparr>))"

text \<open>The click listener that \<open>initOnce\<close> installs; \<open>x\<close> is the click's offset in the host
  element.\<close>

definition onClick :: "real \<Rightarrow> env \<Rightarrow> fw \<Rightarrow> fw" where
  "onClick x e s =
     (if \<not> running s then s
      else if nowMs e < ignoreClicksUntil s then s
      else
        let s1 = spawnRocket (Some x) s;
            buddyChance = 0.30 * lerp 0.55 1.0 (quality s1);
            (v, s2) = Math_random s1
        in if v < buddyChance
           then let (j, s3) = rand (- 40) 40 s2 in spawnRocket (Some (x + j)) s3
           else s2)"

definition api_start :: "bool option \<Rightarrow> env \<Rightarrow> fw \<Rightarrow> fw" where
  "api_start opt e s = start opt e (initOnce e s)"

definition api_stop :: "env \<Rightarrow> fw \<Rightarrow> fw" where
  "api_stop e s = stop e (initOnce e s)"

definition api_pause :: "env \<Rightarrow> fw \<Rightarrow> fw" where
  "api_pause e s = pause (initOnce e s)"

definition api_resume :: "env \<Rightarrow> fw \<Rightarrow> fw" where
  "api_resume e s = resume e (initOnce e s)"

definition api_resize :: "env \<Rightarrow> fw \<Rightarrow> fw" where
  "api_resize e s = resize e (initOnce e s)"

definition api_burst :: "real option \<Rightarrow> real option \<Rightarrow> env \<Rightarrow> fw \<Rightarrow> fw" where
  "api_burst xo yo e s = burst xo yo e (initOnce e s)"

definition api_unlockSfx :: "env \<Rightarrow> fw \<Rightarrow> fw" where
  "api_unlockSfx e s = unlockSfxOnce (initOnce e s)"

subsection \<open>Example inputs\<close>

text \<open>An 800 by 600 host element, and the freshly loaded script sized to it. Every random
  number of the example sequence is one half.\<close>

definition demo_env :: env where
  "demo_env = \<lparr>nowMs = 0, heroWidth = 800, heroHeight = 600, innerWidth = 1280,
     innerHeight = 720, devicePixelRatio = 2, sfxEnabled = False\<rparr>"

definition demo_state :: fw where
  "demo_state = resize demo_env (initial (\<lambda>n. 1 / 2) True)"

text \<open>A particle as a finished burst leaves it: moved, burnt out, of another kind.\<close>

definition used_particle :: particle where
  "used_particle = baseParticle\<lparr>p_x := 120, p_y := 80, p_life := 0, p_kind := Comet\<rparr>"


subsection \<open>Predicates used in the proofs\<close>

text \<open>
  \<open>frameP s t\<close>: \<open>t\<close> differs from \<open>s\<close> at most in the entity collections and pools, the
  timers, the position in the random sequence, the pop sound bookkeeping and the frame
  handles. Quality, size, the running flag and the random sequence itself are the same.
  A particle is \<open>fresh\<close> when its whole life is left. \<open>spawned k s t\<close>: from \<open>s\<close> to \<open>t\<close>,
  \<open>k\<close> particles were pushed and as many as the headroom allows were appended to the
  live ones. \<open>fills s t\<close>: at least as many were pushed as the headroom holds.
\<close>

definition erase :: "fw \<Rightarrow> fw" where
  "erase s = s\<lparr>particles := [], particlePool := [], rpos := 0, smokePuffs := [],
     smokePool := [], rockets := [], rocketPool := [], timers := [], lastPopMs := 0,
     popIndex := 0, lastLaunch := 0, stepRafId := None, launchRafId := None, rafSeq := 0\<rparr>"

definition frameP :: "fw \<Rightarrow> fw \<Rightarrow> bool" where
  "frameP s t = (erase t = erase s)"

definition fresh :: "particle \<Rightarrow> bool" where
  "fresh p = (0 < p_life p \<and> p_life p = p_maxLife p)"

definition spawned :: "nat \<Rightarrow> fw \<Rightarrow> fw \<Rightarrow> bool" where
  "spawned k s t =
     (frameP s t \<and>
      (\<exists>new. particles t = particles s @ new
         \<and> length new = min k (nat (roomForParticles s))
         \<and> (rng_ok s \<longrightarrow> list_all fresh new)))"

definition fills :: "fw \<Rightarrow> fw \<Rightarrow> bool" where
  "fills s t = (\<exists>k. spawned k s t \<and> (rng_ok s \<longrightarrow> nat (roomForParticles s) \<le> k))"

subsection \<open>Sequences of spawning requests\<close>

text \<open>Everything that pushes particles is a burst or the crackle block of one live
  particle. A request names one of the two with its arguments.\<close>

datatype spawn_request = BurstRequest real real real burst_kind env | CrackleRequest real particle

fun serve :: "spawn_request \<Rightarrow> fw \<Rightarrow> fw" where
  "serve (BurstRequest x y hue kind e) s = explodeBurst x y hue kind e s"
| "serve (CrackleRequest dt p) s = snd (crackleSpawn dt p s)"

text \<open>A running scene with two rockets, two particles and a smoke puff alive, one
  particle in the pool, and a frame seen at 1000 ms.\<close>

definition busy_state :: fw where
  "busy_state = demo_state\<lparr>running := True,
     rockets := [newRocket, newRocket\<lparr>r_x := 5\<rparr>],
     particles := [used_particle, baseParticle],
     smokePuffs := [newSmoke],
     particlePool := [baseParticle\<lparr>p_hue := 7\<rparr>],
     lastTs := Some 1000\<rparr>"

definition eraseP :: "fw \<Rightarrow> fw" where
  "eraseP s = s\<lparr>particles := [], particlePool := [], rpos := 0\<rparr>"

definition only_particles :: "fw \<Rightarrow> fw \<Rightarrow> bool" where
  "only_particles s t = (eraseP t = eraseP s)"

text \<open>A host element of 5 by 5 pixels, and the script sized to it.\<close>

definition tiny_env :: env where
  "tiny_env = \<lparr>nowMs = 0, heroWidth = 5, heroHeight = 5, innerWidth = 1280,
     innerHeight = 720, devicePixelRatio = 2, sfxEnabled = False\<rparr>"

definition tiny_state :: fw where
  "tiny_state = resize tiny_env (initial (\<lambda>n. 1 / 2) True)"

text \<open>The script loaded, started with the celebration, and stopped before the first
  celebration timer is due.\<close>

definition stopped_early :: fw where
  "stopped_early = api_stop demo_env (api_start None demo_env (initial (\<lambda>n. 1 / 2) True))"

subsection \<open>Reachable states\<close>

text \<open>
  The states the script can be in: the loaded module, and from any state the effect of
  a call of the public interface, of a frame callback, of a timer that is due, of a
  click, or of a visibility, focus or resize event. Frames and events are allowed at any
  time and with any timestamp, which covers every order the browser can produce.
\<close>

inductive reachable :: "fw \<Rightarrow> bool" where
  loaded: "reachable (initial rs sprite)"
| call_start: "reachable s \<Longrightarrow> reachable (api_start opt e s)"
| call_stop: "reachable s \<Longrightarrow> reachable (api_stop e s)"
| call_pause: "reachable s \<Longrightarrow> reachable (api_pause e s)"
| call_resume: "reachable s \<Longrightarrow> reachable (api_resume e s)"
| call_resize: "reachable s \<Longrightarrow> reachable (api_resize e s)"
| call_burst: "reachable s \<Longrightarrow> reachable (api_burst xo yo e s)"
| call_unlockSfx: "reachable s \<Longrightarrow> reachable (api_unlockSfx e s)"
| frame_step: "reachable s \<Longrightarrow> reachable (step ts e s)"
| frame_launch: "reachable s \<Longrightarrow> reachable (autoLaunch ts s)"
| timer_due: "reachable s \<Longrightarrow> i < length (timers s) \<Longrightarrow>
    reachable (fireTimer (snd (timers s ! i)) e
      (s\<lparr>timers := take i (timers s) @ drop (Suc i) (timers s)\<rparr>))"
| click: "reachable s \<Longrightarrow> reachable (onClick x e s)"
| page_hidden: "reachable s \<Longrightarrow> reachable (pause s)"
| page_shown: "reachable s \<Longrightarrow> reachable (resume e s)"
| window_resized: "reachable s \<Longrightarrow> reachable (resize e s)"

text \<open>The quality scalar is within its bounds and the smoothed frame rate is positive.\<close>

definition governor_ok :: "fw \<Rightarrow> bool" where
  "governor_ok s = (MIN_QUALITY \<le> quality s \<and> quality s \<le> MAX_QUALITY \<and> 0 < fpsSmoothed s)"

subsection \<open>A trace of frames\<close>

text \<open>
  The state in which a constant low frame rate \<open>f\<close> can only pull the quality down: the
  smoothed frame rate is not below \<open>f\<close>, and the quality is not below the target of the
  smoothed frame rate.
\<close>

definition settling :: "real \<Rightarrow> fw \<Rightarrow> bool" where
  "settling f s =
     (f \<le> fpsSmoothed s \<and> qualityFromFps (min (fpsSmoothed s) 62) \<le> quality s
      \<and> quality s \<le> MAX_QUALITY)"

text \<open>A start without celebration on the example surface, followed by seven frames: two
  slow ones that pull the quality below 1, one more slow one and three fast ones.\<close>

definition just_started :: fw where
  "just_started = api_start (Some False) demo_env (initial (\<lambda>n. 1 / 2) True)"

definition jank_then_fast :: fw where
  "jank_then_fast = fold (\<lambda>ts. step ts demo_env) [100, 220, 340, 540, 546, 552, 558] just_started"

section \<open>Properties\<close>

subsection \<open>Random draws and records\<close>

lemma rand_simps:
  "fst (rand lo hi s) = rnd s (rpos s) * (hi - lo) + lo"
  "snd (rand lo hi s) = s\<lparr>rpos := rpos s + 1\<rparr>"
  by (simp_all add: rand_def Math_random_def)

lemma Math_random_simps:
  "fst (Math_random s) = rnd s (rpos s)"
  "snd (Math_random s) = s\<lparr>rpos := rpos s + 1\<rparr>"
  by (simp_all add: Math_random_def)

lemma demo_state_fields:
  "view_w demo_state = 800" "view_h demo_state = 600" "quality demo_state = 1"
  "rockets demo_state = []" "particles demo_state = []" "smokePuffs demo_state = []"
  "rnd demo_state = (\<lambda>n. 1 / 2)" "smokeSprite demo_state"
  "rocketPool demo_state = []" "particlePool demo_state = []" "smokePool demo_state = []"
  "running demo_state = False" "timers demo_state = []"
  by (simp_all add: demo_state_def demo_env_def resize_def initial_def safeHeroRect_def
      qualityWind_def rand_def Math_random_def Let_def)

lemma makeParticle_fst:
  "fst (makeParticle x y vx vy life sz hue kind s) =
     \<lparr>p_x = x, p_y = y, p_px = x, p_py = y, p_vx = vx, p_vy = vy,
      p_life = life, p_maxLife = life, p_size = sz, p_hue = hue, p_kind = kind,
      p_twPhase = rnd s (rpos s) * (pi * 2),
      p_twAmp = rnd s (rpos s + 1) * 0.3 + 0.85,
      p_dragMul = rnd s (rpos s + 2) * 0.18 + 0.92,
      p_gravMul = rnd s (rpos s + 3) * 0.16 + 0.92,
      p_windMul = rnd s (rpos s + 4) * 0.3 + 0.85,
      p_crackleTimer = rnd s (rpos s + 5) * 0.05 + 0.02,
      p_heat = rnd s (rpos s + 6) * 0.3 + 0.85\<rparr>"
  by (cases "last (particlePool s)")
     (simp add: makeParticle_def allocParticle_def baseParticle_def split_def rand_simps
        Let_def eval_nat_numeral)

lemma makeParticle_snd:
  "snd (makeParticle x y vx vy life sz hue kind s) =
     s\<lparr>particlePool := butlast (particlePool s), rpos := rpos s + 7\<rparr>"
  by (simp add: makeParticle_def allocParticle_def split_def rand_simps Let_def eval_nat_numeral)

lemma makeParticle_life:
  "p_life (fst (makeParticle x y vx vy life sz hue kind s)) = life"
  "p_maxLife (fst (makeParticle x y vx vy life sz hue kind s)) = life"
  by (simp_all add: makeParticle_def allocParticle_def split_def Let_def)

subsection \<open>Pushing particles: frames and counts\<close>

lemma frameP_refl: "frameP s s"
  by (simp add: frameP_def)

lemma frameP_trans: "frameP s t \<Longrightarrow> frameP t u \<Longrightarrow> frameP s u"
  by (simp add: frameP_def)

lemma erase_fields:
  "quality (erase s) = quality s" "rnd (erase s) = rnd s" "view_w (erase s) = view_w s"
  "view_h (erase s) = view_h s" "running (erase s) = running s"
  "smokeSprite (erase s) = smokeSprite s" "fpsSmoothed (erase s) = fpsSmoothed s"
  "inited (erase s) = inited s" "lastQualityTs (erase s) = lastQualityTs s"
  by (simp_all add: erase_def)

lemma frameP_fields:
  assumes "frameP s t"
  shows "quality t = quality s" "rnd t = rnd s" "view_w t = view_w s" "view_h t = view_h s"
    "running t = running s" "smokeSprite t = smokeSprite s" "fpsSmoothed t = fpsSmoothed s"
    "inited t = inited s" "lastQualityTs t = lastQualityTs s"
  using assms erase_fields unfolding frameP_def by metis+

lemma frameP_cap: "frameP s t \<Longrightarrow> maxParticlesCap t = maxParticlesCap s"
  by (simp add: maxParticlesCap_def frameP_fields)

lemma frameP_rng: "frameP s t \<Longrightarrow> rng_ok t = rng_ok s"
  by (simp add: rng_ok_def frameP_fields)

lemma spawned_frameP: "spawned k s t \<Longrightarrow> frameP s t"
  by (simp add: spawned_def)

lemma spawned_zero: "frameP s t \<Longrightarrow> particles t = particles s \<Longrightarrow> spawned 0 s t"
  by (simp add: spawned_def)

lemma spawned_refl: "spawned 0 s s"
  by (simp add: spawned_zero frameP_refl)

lemma spawned_rand: "spawned 0 s (snd (rand lo hi s))" "spawned 0 s (snd (Math_random s))"
  by (simp_all add: spawned_zero rand_simps Math_random_simps frameP_def erase_def)

lemma spawned_trans:
  assumes st: "spawned k s t" and tu: "spawned j t u"
  shows "spawned (k + j) s u"
proof -
  from st obtain new where n1: "particles t = particles s @ new"
    "length new = min k (nat (roomForParticles s))" "rng_ok s \<longrightarrow> list_all fresh new"
    and f1: "frameP s t"
    by (auto simp: spawned_def)
  from tu obtain new' where n2: "particles u = particles t @ new'"
    "length new' = min j (nat (roomForParticles t))" "rng_ok t \<longrightarrow> list_all fresh new'"
    and f2: "frameP t u"
    by (auto simp: spawned_def)
  have cap: "maxParticlesCap t = maxParticlesCap s" using f1 by (rule frameP_cap)
  have room: "nat (roomForParticles t) = nat (roomForParticles s) - length new"
    using n1(1) by (simp add: roomForParticles_def cap)
  have "min k R + min j (R - min k R) = min (k + j) R" for R :: nat
    by arith
  then have len: "length (new @ new') = min (k + j) (nat (roomForParticles s))"
    using n1(2) n2(2) room by simp
  have fr: "rng_ok s \<longrightarrow> list_all fresh (new @ new')"
    using n1(3) n2(3) frameP_rng[OF f1] by simp
  have "particles u = particles s @ (new @ new')" using n1(1) n2(1) by simp
  with len fr frameP_trans[OF f1 f2] show ?thesis
    unfolding spawned_def by blast
qed

lemma spawned_push:
  assumes "frameP s u" "particles u = particles s" "rng_ok s \<Longrightarrow> fresh p"
  shows "spawned 1 s (pushParticle p u)"
proof -
  have cap: "maxParticlesCap u = maxParticlesCap s" using assms(1) by (rule frameP_cap)
  have fr: "frameP u (pushParticle p u)"
    by (simp add: frameP_def erase_def pushParticle_def freeParticle_def)
  show ?thesis
  proof (cases "int (length (particles u)) \<ge> maxParticlesCap u")
    case True
    then have "particles (pushParticle p u) = particles s @ []"
      by (simp add: pushParticle_def freeParticle_def assms(2))
    moreover have "length ([]::particle list) = min 1 (nat (roomForParticles s))"
      using True by (simp add: roomForParticles_def cap assms(2))
    moreover have "rng_ok s \<longrightarrow> list_all fresh ([]::particle list)" by simp
    ultimately show ?thesis
      unfolding spawned_def using frameP_trans[OF assms(1) fr] by blast
  next
    case False
    then have "particles (pushParticle p u) = particles s @ [p]"
      by (simp add: pushParticle_def assms(2))
    moreover have "length [p] = min 1 (nat (roomForParticles s))"
      using False by (simp add: roomForParticles_def cap assms(2))
    moreover have "rng_ok s \<longrightarrow> list_all fresh [p]" using assms(3) by simp
    ultimately show ?thesis
      unfolding spawned_def using frameP_trans[OF assms(1) fr] by blast
  qed
qed

lemma spawned_forLoop:
  assumes "\<And>i s. spawned 1 s (body i s)"
  shows "spawned (n - i) s (forLoop i n body s)"
  using assms
proof (induction i n body s rule: forLoop.induct)
  case (1 i n body s)
  show ?case
  proof (cases "i < n")
    case True
    have a: "spawned 1 s (body i s)" by (rule "1.prems")
    have b: "spawned (n - Suc i) (body i s) (forLoop (Suc i) n body (body i s))"
      using "1.IH"[OF True] "1.prems" by simp
    have "spawned (1 + (n - Suc i)) s (forLoop (Suc i) n body (body i s))"
      by (rule spawned_trans[OF a b])
    moreover have "1 + (n - Suc i) = n - i" using True by simp
    moreover have "forLoop i n body s = forLoop (Suc i) n body (body i s)"
      using True by (simp add: forLoop.simps[of i n body s])
    ultimately show ?thesis by simp
  next
    case False
    then show ?thesis by (simp add: forLoop.simps[of i n body s] spawned_refl)
  qed
qed

lemma rng_pos: "rng_ok s \<Longrightarrow> 0 \<le> a \<Longrightarrow> 0 < b \<Longrightarrow> 0 < rnd s n * a + b"
  by (simp add: rng_ok_def add_nonneg_pos)

lemmas body_simps = split_def Let_def rand_simps Math_random_simps makeParticle_snd
  makeParticle_life frameP_def erase_def fresh_def rng_pos

lemma spawned_peonySpark: "spawned 1 s (peonySpark x y hue i s)"
  unfolding peonySpark_def split_def Let_def
  by (rule spawned_push) (simp_all add: body_simps)

lemma spawned_peonyGlitter: "spawned 1 s (peonyGlitter x y hue i s)"
  unfolding peonyGlitter_def split_def Let_def
  by (rule spawned_push) (simp_all add: body_simps)

lemma spawned_ringSpark: "spawned 1 s (ringSpark x y hue c jitter i s)"
  unfolding ringSpark_def split_def Let_def
  by (rule spawned_push) (simp_all add: body_simps)

lemma spawned_ringCore: "spawned 1 s (ringCore x y hue i s)"
  unfolding ringCore_def split_def Let_def
  by (rule spawned_push) (simp_all add: body_simps)

lemma spawned_crackleSpark: "spawned 1 s (crackleSpark x y hue i s)"
  unfolding crackleSpark_def split_def Let_def
  by (rule spawned_push) (simp_all add: body_simps)

lemma spawned_microSpark: "spawned 1 s (microSpark p k s)"
  unfolding microSpark_def split_def Let_def
  by (rule spawned_push) (simp_all add: body_simps)

lemma spawned_palmSpark: "0 \<le> perArm \<Longrightarrow> spawned 1 s (palmSpark x y armAng armHue perArm i s)"
  unfolding palmSpark_def split_def Let_def
  by (rule spawned_push) (simp_all add: body_simps add_pos_nonneg)

lemma maxParticlesCap_bounds: "22 \<le> maxParticlesCap s" "maxParticlesCap s \<le> 50"
  by (simp_all add: maxParticlesCap_def clamp_def BASE_MAX_PARTICLES_def Let_def)

lemma roomForParticles_bounds: "0 \<le> roomForParticles s" "roomForParticles s \<le> 50"
  using maxParticlesCap_bounds(2)[of s] by (simp_all add: roomForParticles_def)

lemma rand_floor_ge:
  assumes "rng_ok s" "lo \<le> hi" "of_int n \<le> lo"
  shows "n \<le> \<lfloor>fst (rand lo hi s)\<rfloor>"
proof -
  have "0 \<le> rnd s (rpos s) * (hi - lo)"
    using assms(1,2) by (simp add: rng_ok_def)
  then have "of_int n \<le> fst (rand lo hi s)"
    using assms(3) by (simp add: rand_simps)
  then show ?thesis by (simp add: le_floor_iff)
qed

lemma min_room: "n \<le> a \<Longrightarrow> b \<le> 50 \<Longrightarrow> 50 \<le> n \<Longrightarrow> min a b = (b::int)"
  by simp

lemma spawned_loop0:
  assumes "\<And>i s. spawned 1 s (body i s)"
  shows "spawned n s (forLoop 0 n body s)"
  using spawned_forLoop[OF assms, of n 0 s] by simp

lemma explodePeony_spawned:
  "\<exists>k. spawned k s (explodePeony x y hue s) \<and> (rng_ok s \<longrightarrow> nat (roomForParticles s) \<le> k)"
proof (cases "roomForParticles s \<le> 0")
  case True
  then have "explodePeony x y hue s = s" by (simp add: explodePeony_def)
  with True spawned_refl[of s] show ?thesis by auto
next
  case False
  define s1 where "s1 = snd (rand 110 160 s)"
  define cnt where "cnt = min \<lfloor>fst (rand 110 160 s)\<rfloor> (roomForParticles s)"
  define s2 where "s2 = forLoop 0 (nat cnt) (peonySpark x y hue) s1"
  define s3 where "s3 = snd (rand 26 52 s2)"
  define g where "g = min \<lfloor>fst (rand 26 52 s2)\<rfloor> (roomForParticles s2)"
  have eq: "explodePeony x y hue s = forLoop 0 (nat g) (peonyGlitter x y hue) s3"
    using False by (simp add: explodePeony_def Let_def split_def s1_def cnt_def s2_def s3_def g_def)
  have a: "spawned 0 s s1" unfolding s1_def by (rule spawned_rand)
  have b: "spawned (nat cnt) s1 s2" unfolding s2_def
    by (rule spawned_loop0) (rule spawned_peonySpark)
  have c: "spawned 0 s2 s3" unfolding s3_def by (rule spawned_rand)
  have d: "spawned (nat g) s3 (explodePeony x y hue s)" unfolding eq
    by (rule spawned_loop0) (rule spawned_peonyGlitter)
  have all: "spawned (0 + nat cnt + 0 + nat g) s (explodePeony x y hue s)"
    by (rule spawned_trans[OF spawned_trans[OF spawned_trans[OF a b] c] d])
  have "rng_ok s \<longrightarrow> nat (roomForParticles s) \<le> 0 + nat cnt + 0 + nat g"
  proof
    assume "rng_ok s"
    then have "110 \<le> \<lfloor>fst (rand 110 160 s)\<rfloor>" by (intro rand_floor_ge) simp_all
    then have "cnt = roomForParticles s"
      unfolding cnt_def by (rule min_room) (simp_all add: roomForParticles_bounds)
    then show "nat (roomForParticles s) \<le> 0 + nat cnt + 0 + nat g" by simp
  qed
  with all show ?thesis by blast
qed

lemma explodeRing_spawned:
  "\<exists>k. spawned k s (explodeRing x y hue s) \<and> (rng_ok s \<longrightarrow> nat (roomForParticles s) \<le> k)"
proof (cases "roomForParticles s \<le> 0")
  case True
  then have "explodeRing x y hue s = s" by (simp add: explodeRing_def)
  with True spawned_refl[of s] show ?thesis by auto
next
  case False
  define s1 where "s1 = snd (rand 90 130 s)"
  define cnt where "cnt = min \<lfloor>fst (rand 90 130 s)\<rfloor> (roomForParticles s)"
  define s2 where "s2 = snd (rand 0.08 0.18 s1)"
  define jit where "jit = fst (rand 0.08 0.18 s1)"
  define s3 where "s3 = forLoop 0 (nat cnt) (ringSpark x y hue cnt jit) s2"
  define s4 where "s4 = snd (rand 18 34 s3)"
  define g where "g = min \<lfloor>fst (rand 18 34 s3)\<rfloor> (roomForParticles s3)"
  have eq: "explodeRing x y hue s = forLoop 0 (nat g) (ringCore x y hue) s4"
    using False
    by (simp add: explodeRing_def Let_def split_def s1_def cnt_def s2_def jit_def s3_def
        s4_def g_def)
  have a: "spawned 0 s s1" unfolding s1_def by (rule spawned_rand)
  have a': "spawned 0 s1 s2" unfolding s2_def by (rule spawned_rand)
  have b: "spawned (nat cnt) s2 s3" unfolding s3_def
    by (rule spawned_loop0) (rule spawned_ringSpark)
  have c: "spawned 0 s3 s4" unfolding s4_def by (rule spawned_rand)
  have d: "spawned (nat g) s4 (explodeRing x y hue s)" unfolding eq
    by (rule spawned_loop0) (rule spawned_ringCore)
  have all: "spawned (0 + 0 + nat cnt + 0 + nat g) s (explodeRing x y hue s)"
    by (rule spawned_trans[OF spawned_trans[OF spawned_trans[OF spawned_trans[OF a a'] b] c] d])
  have "rng_ok s \<longrightarrow> nat (roomForParticles s) \<le> 0 + 0 + nat cnt + 0 + nat g"
  proof
    assume "rng_ok s"
    then have "90 \<le> \<lfloor>fst (rand 90 130 s)\<rfloor>" by (intro rand_floor_ge) simp_all
    then have "cnt = roomForParticles s"
      unfolding cnt_def by (rule min_room) (simp_all add: roomForParticles_bounds)
    then show "nat (roomForParticles s) \<le> 0 + 0 + nat cnt + 0 + nat g" by simp
  qed
  with all show ?thesis by blast
qed

lemma explodeCrackle_spawned:
  "\<exists>k. spawned k s (explodeCrackle x y hue s) \<and> (rng_ok s \<longrightarrow> nat (roomForParticles s) \<le> k)"
proof (cases "roomForParticles s \<le> 0")
  case True
  then have "explodeCrackle x y hue s = s" by (simp add: explodeCrackle_def)
  with True spawned_refl[of s] show ?thesis by auto
next
  case False
  define s1 where "s1 = snd (rand 90 140 s)"
  define cnt where "cnt = min \<lfloor>fst (rand 90 140 s)\<rfloor> (roomForParticles s)"
  have eq: "explodeCrackle x y hue s = forLoop 0 (nat cnt) (crackleSpark x y hue) s1"
    using False by (simp add: explodeCrackle_def Let_def split_def s1_def cnt_def)
  have a: "spawned 0 s s1" unfolding s1_def by (rule spawned_rand)
  have b: "spawned (nat cnt) s1 (explodeCrackle x y hue s)" unfolding eq
    by (rule spawned_loop0) (rule spawned_crackleSpark)
  have all: "spawned (0 + nat cnt) s (explodeCrackle x y hue s)"
    by (rule spawned_trans[OF a b])
  have "rng_ok s \<longrightarrow> nat (roomForParticles s) \<le> 0 + nat cnt"
  proof
    assume "rng_ok s"
    then have "90 \<le> \<lfloor>fst (rand 90 140 s)\<rfloor>" by (intro rand_floor_ge) simp_all
    then have "cnt = roomForParticles s"
      unfolding cnt_def by (rule min_room) (simp_all add: roomForParticles_bounds)
    then show "nat (roomForParticles s) \<le> 0 + nat cnt" by simp
  qed
  with all show ?thesis by blast
qed

lemma palmArm_spawned:
  assumes "0 \<le> perArm"
  shows "fst (palmArm x y aa ah perArm tot i ms)
           = fst ms + min (nat (perArm - int i)) (nat (tot - int (fst ms)))
         \<and> spawned (min (nat (perArm - int i)) (nat (tot - int (fst ms)))) (snd ms)
             (snd (palmArm x y aa ah perArm tot i ms))"
  using assms
proof (induction x y aa ah perArm tot i ms rule: palmArm.induct)
  case (1 x y aa ah perArm tot i made s)
  show ?case
  proof (cases "int i < perArm \<and> int made < tot")
    case True
    let ?s' = "palmSpark x y aa ah perArm i s"
    let ?K' = "min (nat (perArm - int (Suc i))) (nat (tot - int (Suc made)))"
    have eq: "palmArm x y aa ah perArm tot i (made, s)
              = palmArm x y aa ah perArm tot (Suc i) (Suc made, ?s')"
      using True by (simp add: palmArm.simps[of x y aa ah perArm tot i made s])
    have ih: "fst (palmArm x y aa ah perArm tot (Suc i) (Suc made, ?s')) = Suc made + ?K'
         \<and> spawned ?K' ?s' (snd (palmArm x y aa ah perArm tot (Suc i) (Suc made, ?s')))"
      using "1.IH"[OF True "1.prems"] by simp
    have one: "spawned 1 s ?s'" by (rule spawned_palmSpark[OF "1.prems"])
    have K: "min (nat (perArm - int i)) (nat (tot - int made)) = 1 + ?K'"
      using True by arith
    have "spawned (1 + ?K') s (snd (palmArm x y aa ah perArm tot (Suc i) (Suc made, ?s')))"
      using spawned_trans[OF one] ih by blast
    with ih K show ?thesis by (simp add: eq)
  next
    case False
    then have eq: "palmArm x y aa ah perArm tot i (made, s) = (made, s)"
      by (subst palmArm.simps) (simp only: if_False)
    have "min (nat (perArm - int i)) (nat (tot - int made)) = 0"
      using False by (auto simp: min_def)
    then show ?thesis by (simp add: eq spawned_refl)
  qed
qed

lemma palmArms_spawned:
  assumes "0 \<le> perArm"
  shows "\<exists>k. fst (palmArms x y hue arms perArm tot a ms) = fst ms + k
           \<and> spawned k (snd ms) (snd (palmArms x y hue arms perArm tot a ms))
           \<and> (tot \<le> int (fst ms + k) \<or> (arms - int a) * perArm \<le> int k)"
  using assms
proof (induction x y hue arms perArm tot a ms rule: palmArms.induct)
  case (1 x y hue arms perArm tot a made s)
  show ?case
  proof (cases "int a < arms \<and> int made < tot")
    case True
    define s1 where "s1 = snd (rand 0 (pi * 2) s)"
    define aa where "aa = fst (rand 0 (pi * 2) s)"
    define s2 where "s2 = snd (rand (- 12) 12 s1)"
    define ah where "ah = js_mod (hue + fst (rand (- 12) 12 s1) + 360) 360"
    define R1 where "R1 = palmArm x y aa ah perArm tot 0 (made, s2)"
    define K1 where "K1 = min (nat perArm) (nat (tot - int made))"
    have eq: "palmArms x y hue arms perArm tot a (made, s)
              = palmArms x y hue arms perArm tot (Suc a) R1"
      using True
      by (simp add: palmArms.simps[of x y hue arms perArm tot a made s] split_def Let_def
          s1_def aa_def s2_def ah_def R1_def)
    have inner: "fst R1 = made + K1" "spawned K1 s2 (snd R1)"
      using palmArm_spawned[OF "1.prems", of x y aa ah tot 0 "(made, s2)"]
      by (simp_all add: R1_def K1_def)
    have "spawned 0 s s1" unfolding s1_def by (rule spawned_rand)
    moreover have "spawned 0 s1 s2" unfolding s2_def by (rule spawned_rand)
    ultimately have pre: "spawned (0 + 0 + K1) s (snd R1)"
      using inner(2) by (blast intro: spawned_trans)
    have "\<exists>k. fst (palmArms x y hue arms perArm tot (Suc a) R1) = fst R1 + k
           \<and> spawned k (snd R1) (snd (palmArms x y hue arms perArm tot (Suc a) R1))
           \<and> (tot \<le> int (fst R1 + k) \<or> (arms - int (Suc a)) * perArm \<le> int k)"
      using "1.IH"[OF True refl prod.collapse refl prod.collapse refl] "1.prems"
      by (simp add: aa_def s1_def s2_def ah_def R1_def)
    then obtain k2 where k2:
      "fst (palmArms x y hue arms perArm tot (Suc a) R1) = fst R1 + k2"
      "spawned k2 (snd R1) (snd (palmArms x y hue arms perArm tot (Suc a) R1))"
      "tot \<le> int (fst R1 + k2) \<or> (arms - int (Suc a)) * perArm \<le> int k2"
      by blast
    have sp: "spawned (0 + 0 + K1 + k2) s (snd (palmArms x y hue arms perArm tot (Suc a) R1))"
      by (rule spawned_trans[OF pre k2(2)])
    have fin: "tot \<le> int (made + (K1 + k2)) \<or> (arms - int a) * perArm \<le> int (K1 + k2)"
    proof (cases "tot \<le> int (fst R1 + k2)")
      case True
      then show ?thesis by (simp add: inner(1) add.assoc)
    next
      case False
      with k2(3) have b: "(arms - int (Suc a)) * perArm \<le> int k2" by simp
      show ?thesis
      proof (cases "nat perArm \<le> nat (tot - int made)")
        case True
        then have "int K1 = perArm" using "1.prems" by (simp add: K1_def)
        moreover have "(arms - int a) * perArm = (arms - int (Suc a)) * perArm + perArm"
          by (simp add: algebra_simps)
        ultimately show ?thesis using b by simp
      next
        case False
        then have "int K1 = tot - int made" using \<open>int a < arms \<and> int made < tot\<close>
          by (simp add: K1_def)
        then show ?thesis by simp
      qed
    qed
    show ?thesis
      apply (rule exI[of _ "K1 + k2"])
      using sp fin k2(1) inner(1) by (simp add: eq add.assoc)
  next
    case False
    then have eq: "palmArms x y hue arms perArm tot a (made, s) = (made, s)"
      by (subst palmArms.simps) (simp only: if_False)
    have "tot \<le> int made \<or> (arms - int a) * perArm \<le> 0"
      using False "1.prems" by (auto simp: mult_nonpos_nonneg)
    then show ?thesis
      by (intro exI[of _ 0]) (simp add: eq spawned_refl)
  qed
qed

lemma explodePalm_spawned:
  "\<exists>k. spawned k s (explodePalm x y hue s) \<and> (rng_ok s \<longrightarrow> nat (roomForParticles s) \<le> k)"
proof (cases "roomForParticles s \<le> 0")
  case True
  then have "explodePalm x y hue s = s" by (simp add: explodePalm_def)
  with True spawned_refl[of s] show ?thesis by auto
next
  case False
  define s1 where "s1 = snd (rand 6 10 s)"
  define arms where "arms = \<lfloor>fst (rand 6 10 s)\<rfloor>"
  define s2 where "s2 = snd (rand 14 20 s1)"
  define perArm where "perArm = max 10 \<lfloor>fst (rand 14 20 s1)\<rfloor>"
  define tot where "tot = min (arms * perArm) (roomForParticles s)"
  define R where "R = palmArms x y hue arms perArm tot 0 (0, s2)"
  have eq: "explodePalm x y hue s = snd R"
    using False
    by (simp add: explodePalm_def Let_def split_def s1_def arms_def s2_def perArm_def
        tot_def R_def)
  have pos: "0 \<le> perArm" by (simp add: perArm_def)
  from palmArms_spawned[OF pos, of x y hue arms tot 0 "(0, s2)"]
  obtain k where k: "spawned k s2 (snd R)" "tot \<le> int k \<or> arms * perArm \<le> int k"
    by (auto simp: R_def)
  have "spawned 0 s s1" unfolding s1_def by (rule spawned_rand)
  moreover have "spawned 0 s1 s2" unfolding s2_def by (rule spawned_rand)
  ultimately have all: "spawned (0 + 0 + k) s (explodePalm x y hue s)"
    unfolding eq using k(1) by (blast intro: spawned_trans)
  have "rng_ok s \<longrightarrow> nat (roomForParticles s) \<le> 0 + 0 + k"
  proof
    assume ok: "rng_ok s"
    then have a6: "6 \<le> arms" unfolding arms_def by (intro rand_floor_ge) simp_all
    have "rng_ok s1" using ok by (simp add: s1_def rand_simps rng_ok_def)
    then have "14 \<le> \<lfloor>fst (rand 14 20 s1)\<rfloor>" by (intro rand_floor_ge) simp_all
    then have p14: "14 \<le> perArm" by (simp add: perArm_def)
    have "6 * 14 \<le> arms * perArm" using a6 p14 by (intro mult_mono) simp_all
    then have big: "50 \<le> arms * perArm" by simp
    then have "tot = roomForParticles s"
      unfolding tot_def using roomForParticles_bounds(2)[of s] by simp
    with k(2) big roomForParticles_bounds(2)[of s]
    show "nat (roomForParticles s) \<le> 0 + 0 + k" by auto
  qed
  with all show ?thesis by blast
qed

lemma spawned_room:
  "spawned 0 s t \<Longrightarrow> roomForParticles t = roomForParticles s"
  by (auto simp: spawned_def roomForParticles_def frameP_cap)

lemma fills_pre: "spawned 0 s t \<Longrightarrow> fills t u \<Longrightarrow> fills s u"
  unfolding fills_def
  using spawned_trans[of 0 s t] spawned_room[of s t] frameP_rng[OF spawned_frameP, of 0 s t]
  by fastforce

lemma fills_post: "fills s t \<Longrightarrow> spawned 0 t u \<Longrightarrow> fills s u"
  unfolding fills_def using spawned_trans[of _ s t 0 u] by fastforce

lemma spawned_playPop: "spawned 0 s (playPop e s)"
  by (rule spawned_zero)
     (simp_all add: playPop_def frameP_def erase_def split_def Let_def rand_simps)

lemma spawned_spawnSmoke: "spawned 0 s (spawnSmoke x y s)"
  by (rule spawned_zero)
     (simp_all add: spawnSmoke_def allocSmoke_def frameP_def erase_def split_def Let_def rand_simps)

lemma spawned_spawnRocket: "spawned 0 s (spawnRocket xo s)"
  by (rule spawned_zero)
     (simp_all add: spawnRocket_def allocRocket_def randomHue_def chooseBurstKind_def
        frameP_def erase_def split_def Let_def rand_simps Math_random_simps
        split: option.splits)

lemma spawned_timer: "spawned 0 s (s\<lparr>timers := ts\<rparr>)"
  by (rule spawned_zero) (simp_all add: frameP_def erase_def)

lemma fills_pattern:
  "fills s (case kind of Ring \<Rightarrow> explodeRing x y hue s | Palm \<Rightarrow> explodePalm x y hue s
            | Crackle \<Rightarrow> explodeCrackle x y hue s | Peony \<Rightarrow> explodePeony x y hue s)"
  unfolding fills_def
  by (cases kind)
     (simp_all add: explodePeony_spawned explodeRing_spawned explodePalm_spawned
        explodeCrackle_spawned)

lemma if_timer_cases:
  "(if c then u\<lparr>timers := ts0\<rparr> else v) = v
   \<or> (\<exists>ts. (if c then u\<lparr>timers := ts0\<rparr> else v) = u\<lparr>timers := ts\<rparr>)"
  by auto

lemma fills_explodeBurst: "fills s (explodeBurst x y hue kind e s)"
proof -
  define s1 where "s1 = playPop e s"
  define s2 where "s2 = snd (Math_random s1)"
  define s3 where "s3 = (if fst (Math_random s1) < 0.85 * lerp 0.55 1.0 (quality s1)
                         then spawnSmoke x y s2 else s2)"
  define s4 where "s4 = (case kind of Ring \<Rightarrow> explodeRing x y hue s3
                         | Palm \<Rightarrow> explodePalm x y hue s3
                         | Crackle \<Rightarrow> explodeCrackle x y hue s3
                         | Peony \<Rightarrow> explodePeony x y hue s3)"
  define s5 where "s5 = snd (Math_random s4)"
  define s8 where "s8 = snd (rand 70 140 (snd (rand (- 18) 18 (snd (rand (- 24) 24 s5)))))"
  have a: "spawned 0 s s1" unfolding s1_def by (rule spawned_playPop)
  have b: "spawned 0 s1 s2" unfolding s2_def by (rule spawned_rand)
  have c: "spawned 0 s2 s3" unfolding s3_def by (simp add: spawned_spawnSmoke spawned_refl)
  have d: "fills s3 s4" unfolding s4_def by (rule fills_pattern)
  have e5: "spawned 0 s4 s5" unfolding s5_def by (rule spawned_rand)
  have e8: "spawned 0 s5 s8" unfolding s8_def
    using spawned_trans[OF spawned_trans[OF spawned_rand(1) spawned_rand(1)] spawned_rand(1)]
    by simp
  have pre: "fills s s5"
    by (rule fills_pre[OF a fills_pre[OF b fills_pre[OF c fills_post[OF d e5]]]])
  have "explodeBurst x y hue kind e s = s5
        \<or> (\<exists>ts. explodeBurst x y hue kind e s = s8\<lparr>timers := ts\<rparr>)"
    unfolding explodeBurst_def Let_def split_def s1_def s2_def s3_def s4_def s5_def s8_def
    by (rule if_timer_cases)
  then show ?thesis
  proof
    assume "explodeBurst x y hue kind e s = s5"
    with pre show ?thesis by simp
  next
    assume "\<exists>ts. explodeBurst x y hue kind e s = s8\<lparr>timers := ts\<rparr>"
    then obtain ts where "explodeBurst x y hue kind e s = s8\<lparr>timers := ts\<rparr>" ..
    then show ?thesis
      using fills_post[OF fills_post[OF pre e8] spawned_timer] by simp
  qed
qed

lemma fills_length:
  assumes "fills s t" "rng_ok s"
  shows "length (particles t) = length (particles s) + nat (roomForParticles s)"
  using assms by (auto simp: fills_def spawned_def)

lemma fills_le:
  assumes "fills s t"
  shows "length (particles t) \<le> length (particles s) + nat (roomForParticles s)"
  using assms by (auto simp: fills_def spawned_def)

subsection \<open>Bursts and micro-sparks stay within the capacity\<close>

lemma spawned_length:
  "spawned k s t \<Longrightarrow>
   length (particles t) = length (particles s) + min k (nat (roomForParticles s))"
  by (auto simp: spawned_def)

lemma spawned_cap: "spawned k s t \<Longrightarrow> maxParticlesCap t = maxParticlesCap s"
  by (simp add: spawned_frameP frameP_cap)

lemma spawned_within:
  assumes "spawned k s t" "int (length (particles s)) \<le> maxParticlesCap s"
  shows "int (length (particles t)) \<le> maxParticlesCap t"
  using spawned_length[OF assms(1)] spawned_cap[OF assms(1)] assms(2)
  by (simp add: roomForParticles_def)

lemma crackleSpawn_spawned: "\<exists>k. spawned k s (snd (crackleSpawn dt p s))"
proof -
  have "snd (crackleSpawn dt p s) = s
        \<or> (\<exists>n q. snd (crackleSpawn dt p s)
               = forLoop 0 n (microSpark q) (snd (rand 1 3 (snd (rand 0.02 0.07 s)))))"
    by (auto simp: crackleSpawn_def Let_def split_def)
  then show ?thesis
  proof
    assume "snd (crackleSpawn dt p s) = s"
    then show ?thesis using spawned_refl[of s] by auto
  next
    assume "\<exists>n q. snd (crackleSpawn dt p s)
               = forLoop 0 n (microSpark q) (snd (rand 1 3 (snd (rand 0.02 0.07 s))))"
    then obtain n q where eq: "snd (crackleSpawn dt p s)
               = forLoop 0 n (microSpark q) (snd (rand 1 3 (snd (rand 0.02 0.07 s))))"
      by blast
    have "spawned (0 + 0 + n) s (snd (crackleSpawn dt p s))"
      unfolding eq
      by (rule spawned_trans[OF spawned_trans[OF spawned_rand(1) spawned_rand(1)]
            spawned_loop0[OF spawned_microSpark]])
    then show ?thesis by blast
  qed
qed

lemma explodeBurst_spawned: "\<exists>k. spawned k s (explodeBurst x y hue kind e s)"
  using fills_explodeBurst[of s x y hue kind e] by (auto simp: fills_def)

lemma serve_spawned: "\<exists>k. spawned k s (serve r s)"
  by (cases r) (simp_all add: crackleSpawn_spawned explodeBurst_spawned)

lemma serve_fold_within:
  "int (length (particles s)) \<le> maxParticlesCap s \<Longrightarrow>
   int (length (particles (fold serve rs s))) \<le> maxParticlesCap (fold serve rs s)
   \<and> maxParticlesCap (fold serve rs s) = maxParticlesCap s"
proof (induction rs arbitrary: s)
  case Nil
  then show ?case by simp
next
  case (Cons r rs)
  obtain k where k: "spawned k s (serve r s)" using serve_spawned by blast
  have "int (length (particles (serve r s))) \<le> maxParticlesCap (serve r s)"
    by (rule spawned_within[OF k Cons.prems])
  from Cons.IH[OF this] show ?case by (simp add: spawned_cap[OF k])
qed

lemma pushParticle_length:
  "length (particles (pushParticle p s)) =
     (if int (length (particles s)) < maxParticlesCap s then Suc (length (particles s))
      else length (particles s))"
  by (simp add: pushParticle_def freeParticle_def)

lemma pushParticle_cap: "maxParticlesCap (pushParticle p s) = maxParticlesCap s"
  by (simp add: pushParticle_def freeParticle_def maxParticlesCap_def)

lemma explodeBurst_exact:
  assumes "rng_ok s" "int (length (particles s)) \<le> maxParticlesCap s"
  shows "int (length (particles (explodeBurst x y hue kind e s))) = maxParticlesCap s"
  using fills_length[OF fills_explodeBurst assms(1), of x y hue kind e] assms(2)
  by (simp add: roomForParticles_def)

lemma crackle_count:
  "0 < roomForParticles s \<Longrightarrow>
   length (particles (explodeCrackle x y hue s)) =
     length (particles s) + nat (min \<lfloor>fst (rand 90 140 s)\<rfloor> (roomForParticles s))"
proof -
  assume pos: "0 < roomForParticles s"
  let ?n = "nat (min \<lfloor>fst (rand 90 140 s)\<rfloor> (roomForParticles s))"
  have eq: "explodeCrackle x y hue s
        = forLoop 0 ?n (crackleSpark x y hue) (snd (rand 90 140 s))"
    using pos by (simp add: explodeCrackle_def Let_def split_def)
  have "spawned (0 + ?n) s (explodeCrackle x y hue s)"
    unfolding eq by (rule spawned_trans[OF spawned_rand(1) spawned_loop0[OF spawned_crackleSpark]])
  moreover have "?n \<le> nat (roomForParticles s)" by (rule nat_mono) simp
  ultimately show ?thesis using spawned_length[of "0 + ?n" s] by (simp only: min_absorb1 add_0)
qed


lemma pass_length:
  assumes "\<And>i s. spawned 1 s (body i s)"
  shows "length (particles (forLoop 0 n body s))
         = length (particles s) + min n (nat (roomForParticles s))"
  by (rule spawned_length[OF spawned_loop0[OF assms]])

lemma serve_fresh:
  assumes "rng_ok s"
  shows "\<forall>p\<in>set (drop (length (particles s)) (particles (serve r s))). fresh p"
proof -
  obtain k where "spawned k s (serve r s)" using serve_spawned by blast
  then obtain new where "particles (serve r s) = particles s @ new" "list_all fresh new"
    using assms by (auto simp: spawned_def)
  then show ?thesis by (simp add: list_all_iff)
qed

lemma demo_ok: "rng_ok demo_state" "maxParticlesCap demo_state = 50"
  by (simp_all add: rng_ok_def demo_state_fields maxParticlesCap_def lerp_def clamp_def
      BASE_MAX_PARTICLES_def)

subsection \<open>Lifecycle: what pause, resume and stop leave alone\<close>

lemma rev_last_butlast: "xs \<noteq> [] \<Longrightarrow> last xs # rev (butlast xs) = rev xs"
  by (induction xs rule: rev_induct) simp_all

lemma drainRockets_eq:
  "drainRockets s = s\<lparr>rockets := [], rocketPool := rocketPool s @ rev (rockets s)\<rparr>"
proof (induction s rule: drainRockets.induct)
  case (1 s)
  show ?case
  proof (cases "rockets s = []")
    case True
    then show ?thesis by (subst drainRockets.simps) simp
  next
    case False
    then show ?thesis
      using "1.IH"[OF False]
      by (subst drainRockets.simps) (simp add: freeRocket_def rev_last_butlast)
  qed
qed

lemma drainParticles_eq:
  "drainParticles s = s\<lparr>particles := [], particlePool := particlePool s @ rev (particles s)\<rparr>"
proof (induction s rule: drainParticles.induct)
  case (1 s)
  show ?case
  proof (cases "particles s = []")
    case True
    then show ?thesis by (subst drainParticles.simps) simp
  next
    case False
    then show ?thesis
      using "1.IH"[OF False]
      by (subst drainParticles.simps) (simp add: freeParticle_def rev_last_butlast)
  qed
qed

lemma drainSmoke_eq:
  "drainSmoke s = s\<lparr>smokePuffs := [], smokePool := smokePool s @ rev (smokePuffs s)\<rparr>"
proof (induction s rule: drainSmoke.induct)
  case (1 s)
  show ?case
  proof (cases "smokePuffs s = []")
    case True
    then show ?thesis by (subst drainSmoke.simps) simp
  next
    case False
    then show ?thesis
      using "1.IH"[OF False]
      by (subst drainSmoke.simps) (simp add: freeSmoke_def rev_last_butlast)
  qed
qed

lemma pause_fields:
  "rockets (pause s) = rockets s" "particles (pause s) = particles s"
  "smokePuffs (pause s) = smokePuffs s" "rocketPool (pause s) = rocketPool s"
  "particlePool (pause s) = particlePool s" "smokePool (pause s) = smokePool s"
  "running (pause s) = False" "rnd (pause s) = rnd s" "quality (pause s) = quality s"
  "view_w (pause s) = view_w s" "view_h (pause s) = view_h s"
  "smokeSprite (pause s) = smokeSprite s" "lastTs (pause s) = lastTs s"
  by (simp_all add: pause_def stopLoops_def)

lemma resize_fields:
  "rockets (resize e s) = rockets s" "particles (resize e s) = particles s"
  "smokePuffs (resize e s) = smokePuffs s" "rocketPool (resize e s) = rocketPool s"
  "particlePool (resize e s) = particlePool s" "smokePool (resize e s) = smokePool s"
  "running (resize e s) = running s" "rnd (resize e s) = rnd s"
  "quality (resize e s) = quality s" "smokeSprite (resize e s) = smokeSprite s"
  "timers (resize e s) = timers s" "fpsSmoothed (resize e s) = fpsSmoothed s"
  "inited (resize e s) = inited s" "lastTs (resize e s) = lastTs s"
  "view_w (resize e s) = of_int \<lfloor>fst (safeHeroRect e)\<rfloor>"
  "view_h (resize e s) = of_int \<lfloor>snd (safeHeroRect e)\<rfloor>"
  by (simp_all add: resize_def split_def Let_def)

lemma stop_fields:
  "rockets (stop e s) = []" "particles (stop e s) = []" "smokePuffs (stop e s) = []"
  "rocketPool (stop e s) = rocketPool s @ rev (rockets s)"
  "particlePool (stop e s) = particlePool s @ rev (particles s)"
  "smokePool (stop e s) = smokePool s @ rev (smokePuffs s)"
  "running (stop e s) = False" "rnd (stop e s) = rnd s" "quality (stop e s) = quality s"
  "smokeSprite (stop e s) = smokeSprite s"
  by (simp_all add: stop_def resize_fields drainRockets_eq drainParticles_eq drainSmoke_eq
      pause_fields)

lemma initOnce_fields:
  "rockets (initOnce e s) = rockets s" "particles (initOnce e s) = particles s"
  "smokePuffs (initOnce e s) = smokePuffs s" "rocketPool (initOnce e s) = rocketPool s"
  "particlePool (initOnce e s) = particlePool s" "smokePool (initOnce e s) = smokePool s"
  "running (initOnce e s) = running s" "rnd (initOnce e s) = rnd s"
  "quality (initOnce e s) = quality s" "smokeSprite (initOnce e s) = smokeSprite s"
  "timers (initOnce e s) = timers s" "fpsSmoothed (initOnce e s) = fpsSmoothed s"
  "lastTs (initOnce e s) = lastTs s"
  by (simp_all add: initOnce_def resize_fields)

lemma resume_fields:
  "rockets (resume e s) = rockets s" "particles (resume e s) = particles s"
  "smokePuffs (resume e s) = smokePuffs s" "lastTs (resume e s) = None"
  "running (resume e s) = True"
  by (simp_all add: resume_def startLoops_def requestLaunch_def requestStep_def stopLoops_def
      resetPerf_def qualityWind_def rand_simps split_def Let_def resize_fields)

lemma stepDt_bounds: "0 \<le> stepDt ts s" "stepDt ts s \<le> 0.033"
  by (simp_all add: stepDt_def clamp_def)

subsection \<open>Patterns touch nothing but particles; accepted and refused bursts\<close>

lemma only_particles_refl: "only_particles s s"
  by (simp add: only_particles_def)

lemma only_particles_trans: "only_particles s t \<Longrightarrow> only_particles t u \<Longrightarrow> only_particles s u"
  by (simp add: only_particles_def)

lemma eraseP_fields:
  "smokePuffs (eraseP s) = smokePuffs s" "smokePool (eraseP s) = smokePool s"
  "rockets (eraseP s) = rockets s" "rocketPool (eraseP s) = rocketPool s"
  "timers (eraseP s) = timers s" "lastPopMs (eraseP s) = lastPopMs s"
  "quality (eraseP s) = quality s" "running (eraseP s) = running s"
  by (simp_all add: eraseP_def)

lemma only_particles_fields:
  assumes "only_particles s t"
  shows "smokePuffs t = smokePuffs s" "smokePool t = smokePool s" "rockets t = rockets s"
    "rocketPool t = rocketPool s" "timers t = timers s" "lastPopMs t = lastPopMs s"
    "quality t = quality s" "running t = running s"
  using assms eraseP_fields unfolding only_particles_def by metis+

lemmas op_simps = only_particles_def eraseP_def pushParticle_def freeParticle_def split_def
  Let_def rand_simps Math_random_simps makeParticle_snd

lemma only_particles_rand:
  "only_particles s (snd (rand lo hi s))" "only_particles s (snd (Math_random s))"
  by (simp_all add: op_simps)

lemma only_particles_peonySpark: "only_particles s (peonySpark x y hue i s)"
  by (simp add: peonySpark_def op_simps)

lemma only_particles_peonyGlitter: "only_particles s (peonyGlitter x y hue i s)"
  by (simp add: peonyGlitter_def op_simps)

lemma only_particles_ringSpark: "only_particles s (ringSpark x y hue c jitter i s)"
  by (simp add: ringSpark_def op_simps)

lemma only_particles_ringCore: "only_particles s (ringCore x y hue i s)"
  by (simp add: ringCore_def op_simps)

lemma only_particles_crackleSpark: "only_particles s (crackleSpark x y hue i s)"
  by (simp add: crackleSpark_def op_simps)

lemma only_particles_palmSpark: "only_particles s (palmSpark x y aa ah perArm i s)"
  by (simp add: palmSpark_def op_simps)

lemma only_particles_microSpark: "only_particles s (microSpark p k s)"
  by (simp add: microSpark_def op_simps)

lemma only_particles_forLoop:
  assumes "\<And>i s. only_particles s (body i s)"
  shows "only_particles s (forLoop i n body s)"
  using assms
proof (induction i n body s rule: forLoop.induct)
  case (1 i n body s)
  show ?case
  proof (cases "i < n")
    case True
    have "only_particles (body i s) (forLoop (Suc i) n body (body i s))"
      using "1.IH"[OF True] "1.prems" by simp
    with "1.prems"[of s i] have "only_particles s (forLoop (Suc i) n body (body i s))"
      by (rule only_particles_trans)
    then show ?thesis using True by (subst forLoop.simps) simp
  next
    case False
    then show ?thesis by (subst forLoop.simps) (simp add: only_particles_refl)
  qed
qed

lemma only_particles_palmArm:
  "only_particles (snd ms) (snd (palmArm x y aa ah perArm tot i ms))"
proof (induction x y aa ah perArm tot i ms rule: palmArm.induct)
  case (1 x y aa ah perArm tot i made s)
  show ?case
  proof (cases "int i < perArm \<and> int made < tot")
    case True
    have "only_particles s (palmSpark x y aa ah perArm i s)"
      by (rule only_particles_palmSpark)
    with "1.IH"[OF True] show ?thesis
      using True by (subst palmArm.simps) (auto intro: only_particles_trans)
  next
    case False
    then show ?thesis by (subst palmArm.simps) (simp only: if_False snd_conv only_particles_refl)
  qed
qed

lemma only_particles_palmArms:
  "only_particles (snd ms) (snd (palmArms x y hue arms perArm tot a ms))"
proof (induction x y hue arms perArm tot a ms rule: palmArms.induct)
  case (1 x y hue arms perArm tot a made s)
  show ?case
  proof (cases "int a < arms \<and> int made < tot")
    case True
    define s1 where "s1 = snd (rand 0 (pi * 2) s)"
    define aa where "aa = fst (rand 0 (pi * 2) s)"
    define s2 where "s2 = snd (rand (- 12) 12 s1)"
    define ah where "ah = js_mod (hue + fst (rand (- 12) 12 s1) + 360) 360"
    define R1 where "R1 = palmArm x y aa ah perArm tot 0 (made, s2)"
    have eq: "palmArms x y hue arms perArm tot a (made, s)
              = palmArms x y hue arms perArm tot (Suc a) R1"
      using True
      by (simp add: palmArms.simps[of x y hue arms perArm tot a made s] split_def Let_def
          s1_def aa_def s2_def ah_def R1_def)
    have a: "only_particles s s1" unfolding s1_def by (rule only_particles_rand)
    have b: "only_particles s1 s2" unfolding s2_def by (rule only_particles_rand)
    have c: "only_particles s2 (snd R1)"
      using only_particles_palmArm[of "(made, s2)" x y aa ah perArm tot 0] by (simp add: R1_def)
    have d: "only_particles (snd R1) (snd (palmArms x y hue arms perArm tot (Suc a) R1))"
      using "1.IH"[OF True refl prod.collapse refl prod.collapse refl]
      by (simp add: aa_def s1_def s2_def ah_def R1_def)
    show ?thesis unfolding eq snd_conv
      by (rule only_particles_trans[OF only_particles_trans[OF only_particles_trans[OF a b] c] d])
  next
    case False
    then show ?thesis by (subst palmArms.simps) (simp only: if_False snd_conv only_particles_refl)
  qed
qed

lemma op_then_loop:
  "only_particles s u \<Longrightarrow> (\<And>i s. only_particles s (body i s)) \<Longrightarrow>
   only_particles s (forLoop 0 n body u)"
  using only_particles_forLoop only_particles_trans by blast

lemma op_then_rand: "only_particles s u \<Longrightarrow> only_particles s (snd (rand lo hi u))"
  using only_particles_rand(1) only_particles_trans by blast

lemma op_then_palm:
  "only_particles s u \<Longrightarrow> only_particles s (snd (palmArms x y hue arms perArm tot a (m, u)))"
  using only_particles_palmArms[of "(m, u)"] only_particles_trans by fastforce

lemmas op_intros = only_particles_refl op_then_loop op_then_rand op_then_palm
  only_particles_peonySpark only_particles_peonyGlitter only_particles_ringSpark
  only_particles_ringCore only_particles_crackleSpark only_particles_microSpark

lemma only_particles_explodePeony: "only_particles s (explodePeony x y hue s)"
  unfolding explodePeony_def Let_def split_def
  by (cases "roomForParticles s \<le> 0") (auto intro!: op_intros)

lemma only_particles_explodeRing: "only_particles s (explodeRing x y hue s)"
  unfolding explodeRing_def Let_def split_def
  by (cases "roomForParticles s \<le> 0") (auto intro!: op_intros)

lemma only_particles_explodePalm: "only_particles s (explodePalm x y hue s)"
  unfolding explodePalm_def Let_def split_def
  by (cases "roomForParticles s \<le> 0") (auto intro!: op_intros)

lemma only_particles_explodeCrackle: "only_particles s (explodeCrackle x y hue s)"
  unfolding explodeCrackle_def Let_def split_def
  by (cases "roomForParticles s \<le> 0") (auto intro!: op_intros)

lemma only_particles_pattern:
  "only_particles s (case kind of Ring \<Rightarrow> explodeRing x y hue s | Palm \<Rightarrow> explodePalm x y hue s
            | Crackle \<Rightarrow> explodeCrackle x y hue s | Peony \<Rightarrow> explodePeony x y hue s)"
  by (cases kind)
     (simp_all add: only_particles_explodePeony only_particles_explodeRing
        only_particles_explodePalm only_particles_explodeCrackle)

lemma only_particles_crackleSpawn: "only_particles s (snd (crackleSpawn dt p s))"
  unfolding crackleSpawn_def Let_def split_def
  by (auto intro!: op_intros)

lemma playPop_fields:
  "smokePuffs (playPop e s) = smokePuffs s" "smokeSprite (playPop e s) = smokeSprite s"
  "quality (playPop e s) = quality s" "rnd (playPop e s) = rnd s"
  "particles (playPop e s) = particles s" "running (playPop e s) = running s"
  by (simp_all add: playPop_def split_def Let_def rand_simps)

lemma explodeBurst_smokePuffs:
  "smokePuffs (explodeBurst x y hue kind e s) =
     smokePuffs (if fst (Math_random (playPop e s)) < 0.85 * lerp 0.55 1.0 (quality s)
                 then spawnSmoke x y (snd (Math_random (playPop e s)))
                 else snd (Math_random (playPop e s)))"
proof -
  define s3 where "s3 = (if fst (Math_random (playPop e s)) < 0.85 * lerp 0.55 1.0 (quality s)
                 then spawnSmoke x y (snd (Math_random (playPop e s)))
                 else snd (Math_random (playPop e s)))"
  define s4 where "s4 = (case kind of Ring \<Rightarrow> explodeRing x y hue s3
                         | Palm \<Rightarrow> explodePalm x y hue s3
                         | Crackle \<Rightarrow> explodeCrackle x y hue s3
                         | Peony \<Rightarrow> explodePeony x y hue s3)"
  define s5 where "s5 = snd (Math_random s4)"
  define s8 where "s8 = snd (rand 70 140 (snd (rand (- 18) 18 (snd (rand (- 24) 24 s5)))))"
  have "explodeBurst x y hue kind e s = s5
        \<or> (\<exists>ts. explodeBurst x y hue kind e s = s8\<lparr>timers := ts\<rparr>)"
    unfolding explodeBurst_def Let_def split_def s3_def s4_def s5_def s8_def playPop_fields
    by (rule if_timer_cases)
  moreover have "smokePuffs s4 = smokePuffs s3"
    unfolding s4_def by (rule only_particles_fields(1)[OF only_particles_pattern])
  moreover have "smokePuffs s5 = smokePuffs s4" "smokePuffs s8 = smokePuffs s5"
    by (simp_all add: s5_def s8_def Math_random_simps rand_simps)
  ultimately show ?thesis unfolding s3_def[symmetric] by auto
qed

lemma spawnSmoke_length:
  "smokeSprite s \<Longrightarrow> int (length (smokePuffs s)) < maxSmokeCap s \<Longrightarrow>
   length (smokePuffs (spawnSmoke x y s)) = Suc (length (smokePuffs s))"
  by (simp add: spawnSmoke_def allocSmoke_def split_def rand_simps Math_random_simps Let_def)

lemma explodeBurst_smoke:
  assumes "smokeSprite s" "int (length (smokePuffs s)) < maxSmokeCap s"
    "fst (Math_random (playPop e s)) < 0.85 * lerp 0.55 1.0 (quality s)"
  shows "length (smokePuffs (explodeBurst x y hue kind e s)) = Suc (length (smokePuffs s))"
proof -
  let ?s2 = "snd (Math_random (playPop e s))"
  have "smokeSprite ?s2" "smokePuffs ?s2 = smokePuffs s" "maxSmokeCap ?s2 = maxSmokeCap s"
    using assms(1) by (simp_all add: Math_random_simps playPop_fields maxSmokeCap_def)
  then show ?thesis
    using assms(2,3) by (simp add: explodeBurst_smokePuffs spawnSmoke_length)
qed

lemma burst_refused: "view_w s < 10 \<or> view_h s < 10 \<Longrightarrow> burst xo yo e s = s"
  by (simp add: burst_def Let_def)

lemma burst_accepted:
  "10 \<le> view_w s \<Longrightarrow> 10 \<le> view_h s \<Longrightarrow>
   burst xo yo e s =
     explodeBurst (case xo of Some v \<Rightarrow> v | None \<Rightarrow> view_w s * 0.5)
       (case yo of Some v \<Rightarrow> v | None \<Rightarrow> view_h s * 0.6)
       (fst (randomHue s)) (fst (chooseBurstKind (snd (randomHue s)))) e
       (snd (chooseBurstKind (snd (randomHue s))))"
  by (simp add: burst_def Let_def split_def)

lemma chooseBurstKind_snd: "snd (chooseBurstKind s) = s\<lparr>rpos := rpos s + 1\<rparr>"
  by (simp add: chooseBurstKind_def split_def Let_def Math_random_simps)

lemma spawned_draws: "spawned 0 s (snd (chooseBurstKind (snd (randomHue s))))"
  by (rule spawned_zero)
     (simp_all add: chooseBurstKind_snd randomHue_def rand_simps frameP_def erase_def)

lemma fills_burst:
  assumes "10 \<le> view_w s" "10 \<le> view_h s"
  shows "fills s (burst xo yo e s)"
  unfolding burst_accepted[OF assms]
  by (rule fills_pre[OF spawned_draws fills_explodeBurst])

lemma fills_running: "fills s t \<Longrightarrow> running t = running s"
  by (auto simp: fills_def spawned_def frameP_fields)

lemma fresh_fraction: "fresh p \<Longrightarrow> p_life p / p_maxLife p = 1"
  by (simp add: fresh_def)

lemma spawnRocket_pool_indep:
  "rockets (spawnRocket xo (s\<lparr>rocketPool := pool\<rparr>)) = rockets (spawnRocket xo s)"
  apply (cases "last pool"; cases "last (rocketPool s)")
  apply (simp add: spawnRocket_def allocRocket_def newRocket_def maxRocketsCap_def randomHue_def
      chooseBurstKind_def split_def rand_simps Math_random_simps Let_def split: option.splits)
  done

lemma spawnSmoke_pool_indep:
  "smokePuffs (spawnSmoke x y (s\<lparr>smokePool := pool\<rparr>)) = smokePuffs (spawnSmoke x y s)"
  apply (cases "last pool"; cases "last (smokePool s)")
  apply (simp add: spawnSmoke_def allocSmoke_def newSmoke_def maxSmokeCap_def
      split_def rand_simps Math_random_simps Let_def)
  done

lemma spawnRocket_length:
  "int (length (rockets s)) < maxRocketsCap s \<Longrightarrow> 10 \<le> view_w s \<Longrightarrow> 10 \<le> view_h s \<Longrightarrow>
   length (rockets (spawnRocket xo s)) = Suc (length (rockets s))"
  by (simp add: spawnRocket_def allocRocket_def randomHue_def
      chooseBurstKind_def split_def rand_simps Math_random_simps Let_def split: option.splits)

lemma demo_caps: "maxRocketsCap demo_state = 2" "maxSmokeCap demo_state = 28"
  by (simp_all add: demo_state_fields maxRocketsCap_def maxSmokeCap_def lerp_def clamp_def
      js_round_def BASE_MAX_ROCKETS_def BASE_MAX_SMOKE_def)

lemma tiny_state_fields:
  "view_w tiny_state = 5" "view_h tiny_state = 5" "particles tiny_state = []"
  by (simp_all add: tiny_state_def tiny_env_def resize_def initial_def safeHeroRect_def
      qualityWind_def rand_def Math_random_def Let_def)

subsection \<open>Start, timers and smoke\<close>

lemma startLoops_fields:
  "timers (startLoops s) = timers s" "quality (startLoops s) = quality s"
  "rnd (startLoops s) = rnd s" "view_w (startLoops s) = view_w s"
  "view_h (startLoops s) = view_h s" "running (startLoops s) = running s"
  "rockets (startLoops s) = rockets s" "particles (startLoops s) = particles s"
  "smokePuffs (startLoops s) = smokePuffs s" "smokeSprite (startLoops s) = smokeSprite s"
  "fpsSmoothed (startLoops s) = fpsSmoothed s" "lastLaunch (startLoops s) = lastLaunch s"
  "inited (startLoops s) = inited s" "lastTs (startLoops s) = lastTs s"
  by (simp_all add: startLoops_def requestLaunch_def requestStep_def stopLoops_def)

lemma start_timers:
  "timers (start (Some False) e s) = timers s"
  "timers (start (Some True) e s) = timers s @
     [(90, CelebrationBurst 0.50 0.62), (170, CelebrationBurst 0.38 0.58),
      (240, CelebrationBurst 0.62 0.60)]"
  "start None e s = start (Some True) e s"
  by (simp_all add: start_def Let_def split_def startLoops_fields resetPerf_def qualityWind_def
      rand_simps resize_fields)

lemma start_fields:
  "running (start opt e s)" "quality (start opt e s) = 1" "rnd (start opt e s) = rnd s"
  "view_w (start opt e s) = of_int \<lfloor>fst (safeHeroRect e)\<rfloor>"
  "view_h (start opt e s) = of_int \<lfloor>snd (safeHeroRect e)\<rfloor>"
  "rockets (start opt e s) = rockets s" "particles (start opt e s) = particles s"
  "smokePuffs (start opt e s) = smokePuffs s" "smokeSprite (start opt e s) = smokeSprite s"
  "fpsSmoothed (start opt e s) = TARGET_FPS" "lastLaunch (start opt e s) = nowMs e"
  "inited (start opt e s) = inited s" "lastTs (start opt e s) = None"
  by (simp_all add: start_def Let_def split_def startLoops_fields resetPerf_def qualityWind_def
      rand_simps resize_fields)

lemma stop_view:
  "view_w (stop e s) = of_int \<lfloor>fst (safeHeroRect e)\<rfloor>"
  "view_h (stop e s) = of_int \<lfloor>snd (safeHeroRect e)\<rfloor>"
  by (simp_all add: stop_def resize_fields)

lemma secondary_break_guarded:
  "\<not> running s \<Longrightarrow> fireTimer (SecondaryBreak x y dx dy hue) e s = s"
  by simp

lemma draws_fields:
  "smokeSprite (snd (chooseBurstKind (snd (randomHue s)))) = smokeSprite s"
  "smokePuffs (snd (chooseBurstKind (snd (randomHue s)))) = smokePuffs s"
  "quality (snd (chooseBurstKind (snd (randomHue s)))) = quality s"
  "maxSmokeCap (snd (chooseBurstKind (snd (randomHue s)))) = maxSmokeCap s"
  by (simp_all add: chooseBurstKind_snd randomHue_def rand_simps maxSmokeCap_def)

lemma celebration_smoke:
  assumes "10 \<le> view_w s" "10 \<le> view_h s" "smokeSprite s"
    "int (length (smokePuffs s)) < maxSmokeCap s"
    "fst (Math_random (playPop e (snd (chooseBurstKind (snd (randomHue s))))))
       < 0.85 * lerp 0.55 1.0 (quality s)"
  shows "length (smokePuffs (fireTimer (CelebrationBurst fx fy) e s))
         = Suc (length (smokePuffs s))"
  using assms explodeBurst_smoke[of "snd (chooseBurstKind (snd (randomHue s)))" e]
  by (simp add: burst_accepted draws_fields)

lemma stop_timers: "timers (stop e s) = timers s"
  by (simp add: stop_def resize_fields drainRockets_eq drainParticles_eq drainSmoke_eq
      pause_def stopLoops_def)

lemma initial_fields:
  "timers (initial rs sp) = []" "rnd (initial rs sp) = rs" "smokeSprite (initial rs sp) = sp"
  "rockets (initial rs sp) = []" "particles (initial rs sp) = []"
  "smokePuffs (initial rs sp) = []" "quality (initial rs sp) = 1"
  "fpsSmoothed (initial rs sp) = TARGET_FPS" "running (initial rs sp) = False"
  by (simp_all add: initial_def qualityWind_def rand_simps split_def Let_def)

lemma demo_rect: "safeHeroRect demo_env = (800, 600)"
  by (simp add: safeHeroRect_def demo_env_def)

lemma stopped_early_fields:
  "timers stopped_early = [(90, CelebrationBurst 0.50 0.62), (170, CelebrationBurst 0.38 0.58),
      (240, CelebrationBurst 0.62 0.60)]"
  "running stopped_early = False" "view_w stopped_early = 800" "view_h stopped_early = 600"
  "rnd stopped_early = (\<lambda>n. 1 / 2)" "smokeSprite stopped_early"
  "smokePuffs stopped_early = []" "particles stopped_early = []" "quality stopped_early = 1"
  by (simp_all add: stopped_early_def api_stop_def api_start_def stop_fields stop_timers
      stop_view initOnce_fields start_timers start_fields initial_fields demo_rect)

subsection \<open>The quality governor in every reachable state\<close>

lemma frameP_spawnRocket: "frameP s (spawnRocket xo s)"
  by (rule spawned_frameP[OF spawned_spawnRocket])

lemma frameP_launchInterval: "frameP s (snd (launchInterval s))"
  by (simp add: launchInterval_def split_def Let_def Math_random_simps frameP_def erase_def)

lemma frameP_upd:
  "frameP s (s\<lparr>lastLaunch := a\<rparr>)" "frameP s (s\<lparr>timers := b\<rparr>)" "frameP s (requestLaunch s)"
  "frameP s (requestStep s)" "frameP s (freeRocket r s)" "frameP s (s\<lparr>rockets := c\<rparr>)"
  "frameP s (freeSmoke k s)" "frameP s (s\<lparr>smokePuffs := d\<rparr>)" "frameP s (freeParticle p s)"
  "frameP s (s\<lparr>particles := f\<rparr>)" "frameP s (snd (Math_random s))"
  "frameP s (snd (rand lo hi s))"
  by (simp_all add: frameP_def erase_def requestLaunch_def requestStep_def freeRocket_def
      freeSmoke_def freeParticle_def Math_random_simps rand_simps)

lemma frameP_after:
  "frameP s u \<Longrightarrow> frameP s (u\<lparr>lastLaunch := a\<rparr>)"
  "frameP s u \<Longrightarrow> frameP s (u\<lparr>timers := b\<rparr>)"
  "frameP s u \<Longrightarrow> frameP s (requestLaunch u)"
  "frameP s u \<Longrightarrow> frameP s (requestStep u)"
  "frameP s u \<Longrightarrow> frameP s (freeRocket r u)"
  "frameP s u \<Longrightarrow> frameP s (u\<lparr>rockets := c\<rparr>)"
  "frameP s u \<Longrightarrow> frameP s (freeSmoke k u)"
  "frameP s u \<Longrightarrow> frameP s (u\<lparr>smokePuffs := d\<rparr>)"
  "frameP s u \<Longrightarrow> frameP s (freeParticle p u)"
  "frameP s u \<Longrightarrow> frameP s (u\<lparr>particles := f\<rparr>)"
  "frameP s u \<Longrightarrow> frameP s (snd (Math_random u))"
  "frameP s u \<Longrightarrow> frameP s (snd (rand lo hi u))"
  by (erule frameP_trans, rule frameP_upd)+

lemma frameP_after_calls:
  "frameP s u \<Longrightarrow> frameP s (spawnRocket xo u)"
  "frameP s u \<Longrightarrow> frameP s (snd (launchInterval u))"
  "frameP s u \<Longrightarrow> frameP s (spawnSmoke x y u)"
  "frameP s u \<Longrightarrow> frameP s (snd (chooseBurstKind u))"
  "frameP s u \<Longrightarrow> frameP s (snd (randomHue u))"
  subgoal by (erule frameP_trans) (rule frameP_spawnRocket)
  subgoal by (erule frameP_trans) (rule frameP_launchInterval)
  subgoal by (erule frameP_trans) (rule spawned_frameP[OF spawned_spawnSmoke])
  subgoal by (erule frameP_trans) (simp add: chooseBurstKind_snd frameP_def erase_def)
  subgoal by (erule frameP_trans) (simp add: randomHue_def frameP_upd)
  done

lemma frameP_after_bursts:
  "frameP s u \<Longrightarrow> frameP s (explodeBurst x y hue kind e u)"
  "frameP s u \<Longrightarrow> frameP s (explodePeony x y hue u)"
  "frameP s u \<Longrightarrow> frameP s (snd (crackleSpawn dt q u))"
  subgoal using explodeBurst_spawned[of u x y hue kind e]
    by (blast intro: frameP_trans spawned_frameP)
  subgoal using explodePeony_spawned[of u x y hue]
    by (blast intro: frameP_trans spawned_frameP)
  subgoal using crackleSpawn_spawned[of u dt q]
    by (blast intro: frameP_trans spawned_frameP)
  done

lemma frameP_if: "frameP s a \<Longrightarrow> frameP s b \<Longrightarrow> frameP s (if c then a else b)"
  by simp

lemmas frame_intros = frameP_if frameP_refl frameP_after frameP_after_calls
  frameP_after_bursts

lemma frameP_autoLaunch: "frameP s (autoLaunch ts s)"
  unfolding autoLaunch_def Let_def split_def
  by (intro frame_intros)

lemma frameP_onClick: "frameP s (onClick x e s)"
  unfolding onClick_def Let_def split_def
  by (intro frame_intros)

lemma frameP_burst: "frameP s (burst xo yo e s)"
  unfolding burst_def Let_def split_def
  by (intro frame_intros)

lemma frameP_fireTimer: "frameP s (fireTimer t e s)"
proof (cases t)
  case (CelebrationBurst fx fy)
  then show ?thesis by (simp add: frameP_burst)
next
  case (SecondaryBreak x y dx dy hue)
  show ?thesis unfolding SecondaryBreak fireTimer.simps Let_def split_def
    by (intro frame_intros)
qed

lemma frameP_stepSmoke: "frameP s (stepSmoke dt i s)"
  unfolding stepSmoke_def Let_def
  by (intro frame_intros)

lemma frameP_stepRocket: "frameP s (stepRocket dt e i s)"
  unfolding stepRocket_def Let_def
  by (intro frame_intros)

lemma frameP_stepParticle: "frameP s (stepParticle dt i s)"
  unfolding stepParticle_def Let_def split_def
  by (intro frame_intros)

lemma frameP_downLoop:
  assumes "\<And>i s. frameP s (body i s)"
  shows "frameP s (downLoop n body s)"
proof (induction n arbitrary: s)
  case 0
  show ?case by (simp add: frameP_refl)
next
  case (Suc n)
  show ?case using frameP_trans[OF assms[of s n] Suc[of "body n s"]] by simp
qed

lemma frameP_governor: "frameP s t \<Longrightarrow> governor_ok t = governor_ok s"
  by (simp add: governor_ok_def frameP_fields)

lemma updateQuality_quality:
  "quality (updateQuality ts d e s) =
     (if ts - lastQualityTs s > 220
      then clamp (quality s
                  + (qualityFromFps
                       (min (fpsSmoothed s + (1000 / clamp d 6 120 - fpsSmoothed s) * FPS_EMA) 62)
                     - quality s) * QUALITY_EMA) MIN_QUALITY MAX_QUALITY
      else quality s)"
  by (simp add: updateQuality_def Let_def resize_fields)

lemma updateQuality_fps:
  "fpsSmoothed (updateQuality ts d e s)
   = fpsSmoothed s + (1000 / clamp d 6 120 - fpsSmoothed s) * FPS_EMA"
  by (simp add: updateQuality_def Let_def resize_fields)

lemma clamp_bounds: "lo \<le> hi \<Longrightarrow> lo \<le> clamp v lo hi \<and> clamp v lo hi \<le> hi"
  by (simp add: clamp_def)

lemma ema_fps_pos:
  assumes "0 < f"
  shows "0 < f + (1000 / clamp d 6 120 - f) * FPS_EMA"
proof -
  have "0 < clamp d 6 (120::real)" by (simp add: clamp_def)
  then have a: "0 < (1000 / clamp d 6 120) * (8 / 100)" by simp
  have b: "0 < f * (92 / 100)" using assms by simp
  have "f + (1000 / clamp d 6 120 - f) * FPS_EMA
                 = f * (92 / 100) + (1000 / clamp d 6 120) * (8 / 100)"
    by (simp add: FPS_EMA_def algebra_simps)
  then show ?thesis using add_pos_pos[OF b a] by (simp only:)
qed

lemma governor_updateQuality:
  "governor_ok s \<Longrightarrow> governor_ok (updateQuality ts d e s)"
  unfolding governor_ok_def updateQuality_quality updateQuality_fps
  using clamp_bounds[of MIN_QUALITY MAX_QUALITY] ema_fps_pos
  by (simp add: MIN_QUALITY_def MAX_QUALITY_def)

lemma frameP_step_tail:
  "frameP s2
     (requestStep
       (downLoop (length (particles s4)) (stepParticle dt)
         (downLoop (length (rockets s3)) (stepRocket dt e)
           (if c then downLoop (length (smokePuffs s2)) (stepSmoke dt) s2 else s2))))"
  (is "frameP s2 (requestStep (downLoop ?n (stepParticle dt) (downLoop ?m (stepRocket dt e) ?u)))")
proof -
  have a: "frameP s2 ?u"
    by (simp add: frameP_refl frameP_downLoop[OF frameP_stepSmoke])
  have b: "frameP ?u (downLoop ?m (stepRocket dt e) ?u)"
    by (rule frameP_downLoop[OF frameP_stepRocket])
  have c: "frameP (downLoop ?m (stepRocket dt e) ?u)
             (downLoop ?n (stepParticle dt) (downLoop ?m (stepRocket dt e) ?u))"
    by (rule frameP_downLoop[OF frameP_stepParticle])
  show ?thesis
    by (rule frameP_after(4)[OF frameP_trans[OF frameP_trans[OF a b] c]])
qed

lemma governor_step: "governor_ok s \<Longrightarrow> governor_ok (step ts e s)"
proof (cases "running s")
  case False
  then show "governor_ok s \<Longrightarrow> governor_ok (step ts e s)" by (simp add: step_def)
next
  case True
  assume ok: "governor_ok s"
  define s1 where "s1 = updateQuality ts (stepDeltaMs ts s) e (s\<lparr>lastTs := Some ts\<rparr>)"
  define s2 where "s2 = (if smokeParityEnabled s1
                         then s1\<lparr>smokeParity := smokeParity s1 XOR 1\<rparr> else s1)"
  have "governor_ok (s\<lparr>lastTs := Some ts\<rparr>)" using ok by (simp add: governor_ok_def)
  then have "governor_ok s1" unfolding s1_def by (rule governor_updateQuality)
  then have g2: "governor_ok s2" by (simp add: s2_def governor_ok_def)
  have "frameP s2 (step ts e s)"
    using True unfolding step_def Let_def s1_def s2_def
    by (simp only: if_False not_True_eq_False frameP_step_tail)
  from frameP_governor[OF this] g2 show "governor_ok (step ts e s)" by simp
qed

lemma qualityFromFps_formula:
  assumes "0 \<le> f"
  shows "qualityFromFps (min f 62) = clamp ((min f 62 / 60) powr 0.78) 0.55 1.0"
proof (cases "min f 62 / 60 \<le> 1")
  case True
  then have eq: "clamp (min f 62 / TARGET_FPS) 0 1 = min f 62 / 60"
    using assms by (simp add: clamp_def TARGET_FPS_def)
  show ?thesis
    unfolding qualityFromFps_def Let_def eq MIN_QUALITY_def MAX_QUALITY_def by simp
next
  case False
  then have r: "clamp (min f 62 / TARGET_FPS) 0 1 = 1"
    by (simp add: clamp_def TARGET_FPS_def)
  have "1 \<le> (min f 62 / 60) powr 0.78"
    using False by (intro ge_one_powr_ge_zero) simp_all
  then have "clamp ((min f 62 / 60) powr 0.78) 0.55 1.0 = 1"
    by (simp add: clamp_def)
  moreover have "qualityFromFps (min f 62) = 1"
    unfolding qualityFromFps_def Let_def r MIN_QUALITY_def MAX_QUALITY_def
    by (simp add: clamp_def)
  ultimately show ?thesis by simp
qed

lemma perf_fields:
  "fpsSmoothed (pause s) = fpsSmoothed s" "fpsSmoothed (stop e s) = fpsSmoothed s"
  "fpsSmoothed (resume e s) = TARGET_FPS" "quality (resume e s) = 1"
  "quality (resetPerf s) = 1" "fpsSmoothed (resetPerf s) = TARGET_FPS"
  "quality (unlockSfxOnce s) = quality s" "fpsSmoothed (unlockSfxOnce s) = fpsSmoothed s"
  by (simp_all add: pause_def stopLoops_def stop_def resize_fields drainRockets_eq
      drainParticles_eq drainSmoke_eq resume_def startLoops_fields resetPerf_def
      unlockSfxOnce_def qualityWind_def rand_simps split_def Let_def)

lemma governor_reset: "governor_ok (start opt e s)" "governor_ok (resume e s)"
  "governor_ok (initial rs sp)"
  by (simp_all add: governor_ok_def start_fields perf_fields initial_fields MIN_QUALITY_def
      MAX_QUALITY_def TARGET_FPS_def)

lemma governor_kept:
  "governor_ok (initOnce e s) = governor_ok s" "governor_ok (resize e s) = governor_ok s"
  "governor_ok (pause s) = governor_ok s" "governor_ok (stop e s) = governor_ok s"
  "governor_ok (unlockSfxOnce s) = governor_ok s"
  "governor_ok (s\<lparr>timers := ts\<rparr>) = governor_ok s"
  by (simp_all add: governor_ok_def initOnce_fields resize_fields pause_fields stop_fields
      perf_fields)

lemma reachable_governor: "reachable s \<Longrightarrow> governor_ok s"
proof (induction rule: reachable.induct)
  case (loaded rs sprite)
  show ?case by (rule governor_reset)
next
  case (call_start s opt e)
  show ?case unfolding api_start_def by (rule governor_reset)
next
  case (call_stop s e)
  then show ?case by (simp add: api_stop_def governor_kept)
next
  case (call_pause s e)
  then show ?case by (simp add: api_pause_def governor_kept)
next
  case (call_resume s e)
  show ?case unfolding api_resume_def by (rule governor_reset)
next
  case (call_resize s e)
  then show ?case by (simp add: api_resize_def governor_kept)
next
  case (call_burst s xo yo e)
  then show ?case
    by (simp add: api_burst_def frameP_governor[OF frameP_burst] governor_kept)
next
  case (call_unlockSfx s e)
  then show ?case by (simp add: api_unlockSfx_def governor_kept)
next
  case (frame_step s ts e)
  from frame_step.IH show ?case by (rule governor_step)
next
  case (frame_launch s ts)
  then show ?case by (simp add: frameP_governor[OF frameP_autoLaunch])
next
  case (timer_due s i e)
  then show ?case by (simp add: frameP_governor[OF frameP_fireTimer] governor_kept)
next
  case (click s x e)
  then show ?case by (simp add: frameP_governor[OF frameP_onClick])
next
  case (page_hidden s)
  then show ?case by (simp add: governor_kept)
next
  case (page_shown s e)
  show ?case by (rule governor_reset)
next
  case (window_resized s e)
  then show ?case by (simp add: governor_kept)
qed

subsection \<open>Quality under a constant frame rate\<close>

lemma clamp_id: "lo \<le> v \<Longrightarrow> v \<le> hi \<Longrightarrow> clamp v lo hi = v"
  by (simp add: clamp_def)

lemma clamp_mono: "a \<le> b \<Longrightarrow> clamp a lo hi \<le> clamp b lo hi"
  unfolding clamp_def by (intro max.mono min.mono) simp_all

lemma qualityFromFps_mono: "a \<le> b \<Longrightarrow> qualityFromFps a \<le> qualityFromFps b"
proof -
  assume ab: "a \<le> b"
  have r: "clamp (a / TARGET_FPS) 0 1 \<le> clamp (b / TARGET_FPS) 0 1"
    using ab by (intro clamp_mono) (simp add: TARGET_FPS_def)
  have "0 \<le> clamp (a / TARGET_FPS) 0 (1::real)" by (simp add: clamp_def)
  then have "clamp (a / TARGET_FPS) 0 1 powr 0.78 \<le> clamp (b / TARGET_FPS) 0 1 powr 0.78"
    using r by (intro powr_mono2) simp_all
  then show ?thesis
    unfolding qualityFromFps_def Let_def by (rule clamp_mono)
qed

lemma qualityFromFps_min62: "qualityFromFps (min f 62) = qualityFromFps f"
proof -
  have "clamp (min f 62 / TARGET_FPS) 0 1 = clamp (f / TARGET_FPS) 0 (1::real)"
    by (simp add: clamp_def TARGET_FPS_def min_def max_def)
  then show ?thesis by (simp add: qualityFromFps_def)
qed

lemma qualityFromFps_bounds: "MIN_QUALITY \<le> qualityFromFps f" "qualityFromFps f \<le> MAX_QUALITY"
  by (simp_all add: qualityFromFps_def Let_def clamp_def MIN_QUALITY_def MAX_QUALITY_def)

lemma settling_step:
  assumes "settling (1000 / clamp d 6 120) s"
  shows "settling (1000 / clamp d 6 120) (updateQuality ts d e s)
         \<and> quality (updateQuality ts d e s) \<le> quality s"
proof -
  let ?f = "1000 / clamp d 6 120"
  let ?F = "fpsSmoothed s + (?f - fpsSmoothed s) * FPS_EMA"
  let ?T = "qualityFromFps (min ?F 62)"
  let ?v = "quality s + (?T - quality s) * QUALITY_EMA"
  from assms have f: "?f \<le> fpsSmoothed s"
    and q: "qualityFromFps (min (fpsSmoothed s) 62) \<le> quality s"
    and q1: "quality s \<le> MAX_QUALITY"
    by (simp_all add: settling_def)
  have F1: "?f \<le> ?F"
  proof -
    have "?F = ?f + (fpsSmoothed s - ?f) * (92 / 100)"
      by (simp add: FPS_EMA_def algebra_simps)
    moreover have "0 \<le> (fpsSmoothed s - ?f) * (92 / 100)" using f by simp
    ultimately show ?thesis by linarith
  qed
  have F2: "?F \<le> fpsSmoothed s"
  proof -
    have "(?f - fpsSmoothed s) * FPS_EMA \<le> 0"
      using f by (simp add: FPS_EMA_def mult_le_0_iff)
    then show ?thesis by linarith
  qed
  have "min ?F 62 \<le> min (fpsSmoothed s) 62"
    using F2 by (intro min.mono) simp_all
  from qualityFromFps_mono[OF this] q have T: "?T \<le> quality s"
    by (rule order_trans)
  have Tmin: "MIN_QUALITY \<le> ?T" by (rule qualityFromFps_bounds)
  have v1: "?v \<le> quality s"
  proof -
    have "(?T - quality s) * QUALITY_EMA \<le> 0"
      using T by (simp add: QUALITY_EMA_def mult_le_0_iff)
    then show ?thesis by linarith
  qed
  have v2: "?T \<le> ?v"
  proof -
    have "?v = ?T + (quality s - ?T) * (955 / 1000)"
      by (simp add: QUALITY_EMA_def algebra_simps)
    moreover have "0 \<le> (quality s - ?T) * (955 / 1000)" using T by simp
    ultimately show ?thesis by linarith
  qed
  have cl: "clamp ?v MIN_QUALITY MAX_QUALITY = ?v"
    by (rule clamp_id[OF order_trans[OF Tmin v2] order_trans[OF v1 q1]])
  have qn: "quality (updateQuality ts d e s) = (if ts - lastQualityTs s > 220 then ?v else quality s)"
    by (simp only: updateQuality_quality cl)
  have fn: "fpsSmoothed (updateQuality ts d e s) = ?F" by (rule updateQuality_fps)
  show ?thesis
    unfolding settling_def qn fn using F1 v1 v2 T q1 by auto
qed

lemma settling_floor:
  assumes "settling f s"
  shows "qualityFromFps f \<le> quality s"
proof -
  have "qualityFromFps f = qualityFromFps (min f 62)" by (simp add: qualityFromFps_min62)
  also have "\<dots> \<le> qualityFromFps (min (fpsSmoothed s) 62)"
    using assms by (intro qualityFromFps_mono min.mono) (simp_all add: settling_def)
  also have "\<dots> \<le> quality s" using assms by (simp add: settling_def)
  finally show ?thesis .
qed

lemma settling_fold:
  assumes "settling (1000 / clamp d 6 120) s"
  shows "settling (1000 / clamp d 6 120) (fold (\<lambda>ts. updateQuality ts d e) tss s)
         \<and> quality (fold (\<lambda>ts. updateQuality ts d e) tss s) \<le> quality s"
  using assms
proof (induction tss arbitrary: s)
  case Nil
  then show ?case by simp
next
  case (Cons ts tss)
  from settling_step[OF Cons.prems, of ts e]
  have a: "settling (1000 / clamp d 6 120) (updateQuality ts d e s)"
    and b: "quality (updateQuality ts d e s) \<le> quality s" by simp_all
  from Cons.IH[OF a] b show ?case by auto
qed

lemma frameP_clock:
  assumes "frameP s t"
  shows "lastTs t = lastTs s" "lastResizeQualityCheck t = lastResizeQualityCheck s"
proof -
  have "lastTs (erase t) = lastTs t" "lastTs (erase s) = lastTs s"
    "lastResizeQualityCheck (erase t) = lastResizeQualityCheck t"
    "lastResizeQualityCheck (erase s) = lastResizeQualityCheck s"
    by (simp_all add: erase_def)
  then show "lastTs t = lastTs s" "lastResizeQualityCheck t = lastResizeQualityCheck s"
    using assms unfolding frameP_def by metis+
qed

lemma step_frame:
  assumes "running s"
  shows "frameP (let s1 = updateQuality ts (stepDeltaMs ts s) e (s\<lparr>lastTs := Some ts\<rparr>)
                 in if smokeParityEnabled s1
                    then s1\<lparr>smokeParity := smokeParity s1 XOR 1\<rparr> else s1)
           (step ts e s)"
  using assms unfolding step_def Let_def
  by (simp only: if_False not_True_eq_False frameP_step_tail)

lemma updateQuality_clock:
  "lastQualityTs (updateQuality ts d e s) = (if ts - lastQualityTs s > 220 then ts else lastQualityTs s)"
  "lastResizeQualityCheck (updateQuality ts d e s)
     = (if ts - lastResizeQualityCheck s > RESIZE_CHECK_MS then ts else lastResizeQualityCheck s)"
  "lastTs (updateQuality ts d e s) = lastTs s" "running (updateQuality ts d e s) = running s"
  by (simp_all add: updateQuality_def Let_def resize_def split_def)

lemma step_perf:
  "running (step ts e s) = running s"
  "quality (step ts e s) =
     (if running s then quality (updateQuality ts (stepDeltaMs ts s) e s) else quality s)"
  "fpsSmoothed (step ts e s) =
     (if running s then fpsSmoothed (updateQuality ts (stepDeltaMs ts s) e s) else fpsSmoothed s)"
  "lastQualityTs (step ts e s) =
     (if running s then lastQualityTs (updateQuality ts (stepDeltaMs ts s) e s)
      else lastQualityTs s)"
  "lastTs (step ts e s) = (if running s then Some ts else lastTs s)"
proof -
  have nr: "\<not> running s \<Longrightarrow> step ts e s = s" by (simp add: step_def)
  let ?s1 = "updateQuality ts (stepDeltaMs ts s) e (s\<lparr>lastTs := Some ts\<rparr>)"
  let ?s2 = "if smokeParityEnabled ?s1 then ?s1\<lparr>smokeParity := smokeParity ?s1 XOR 1\<rparr> else ?s1"
  have fr: "running s \<Longrightarrow> frameP ?s2 (step ts e s)"
    using step_frame[of s ts e] by (simp add: Let_def)
  show "running (step ts e s) = running s"
    using nr frameP_fields(5)[OF fr] by (cases "running s") (simp_all add: updateQuality_clock)
  show "quality (step ts e s) =
     (if running s then quality (updateQuality ts (stepDeltaMs ts s) e s) else quality s)"
    using nr frameP_fields(1)[OF fr]
    by (cases "running s") (simp_all add: updateQuality_quality)
  show "fpsSmoothed (step ts e s) =
     (if running s then fpsSmoothed (updateQuality ts (stepDeltaMs ts s) e s) else fpsSmoothed s)"
    using nr frameP_fields(7)[OF fr]
    by (cases "running s") (simp_all add: updateQuality_fps)
  show "lastQualityTs (step ts e s) =
     (if running s then lastQualityTs (updateQuality ts (stepDeltaMs ts s) e s)
      else lastQualityTs s)"
    using nr frameP_fields(9)[OF fr]
    by (cases "running s") (simp_all add: updateQuality_clock)
  show "lastTs (step ts e s) = (if running s then Some ts else lastTs s)"
    using nr frameP_clock(1)[OF fr]
    by (cases "running s") (simp_all add: updateQuality_clock)
qed

lemma just_started_perf:
  "running just_started" "lastTs just_started = None" "lastQualityTs just_started = 0"
  "fpsSmoothed just_started = 60" "quality just_started = 1"
  by (simp_all add: just_started_def api_start_def start_def Let_def split_def
      startLoops_def requestLaunch_def requestStep_def stopLoops_def resetPerf_def
      qualityWind_def rand_simps resize_def TARGET_FPS_def)

lemma jank_then_fast_perf:
  "running jank_then_fast" "lastTs jank_then_fast = Some 558"
  "lastQualityTs jank_then_fast = 340"
  "fpsSmoothed jank_then_fast \<ge> 79"
  "quality jank_then_fast
     = clamp (1 + (qualityFromFps (555812 / 9375) - 1) * QUALITY_EMA) MIN_QUALITY MAX_QUALITY"
  by (simp_all add: jank_then_fast_def step_perf just_started_perf updateQuality_quality
      updateQuality_fps updateQuality_clock stepDeltaMs_def clamp_def[of "_::real" 6 120]
      FPS_EMA_def qualityFromFps_min62)

lemma qualityFromFps_below_one:
  assumes "0 \<le> f" "f < 60"
  shows "qualityFromFps f < 1"
proof -
  have r: "clamp (f / TARGET_FPS) 0 1 = f / 60"
    using assms by (simp add: clamp_def TARGET_FPS_def)
  have "(f / 60) powr 0.78 < 1 powr 0.78"
    using assms by (intro powr_less_mono2) simp_all
  then have "(f / 60) powr 0.78 < 1" by simp
  then show ?thesis
    unfolding qualityFromFps_def Let_def r
    by (simp add: clamp_def MIN_QUALITY_def MAX_QUALITY_def)
qed

lemma qualityFromFps_50: "qualityFromFps 50 \<le> 0.92"
proof -
  have r: "clamp (50 / TARGET_FPS) 0 1 = (5 / 6 :: real)"
    by (simp add: clamp_def TARGET_FPS_def)
  have "(5 / 6 :: real) powr 0.78 \<le> (5 / 6) powr (1 / 2)"
    by (intro powr_mono') simp_all
  also have "\<dots> = sqrt (5 / 6)" by (simp add: powr_half_sqrt)
  also have "\<dots> \<le> 0.92" by (intro real_le_lsqrt) (simp_all add: power2_eq_square)
  finally have "(5 / 6 :: real) powr 0.78 \<le> 0.92" .
  then show ?thesis
    unfolding qualityFromFps_def Let_def r
    by (simp add: clamp_def MIN_QUALITY_def MAX_QUALITY_def)
qed

lemma qualityFromFps_62: "qualityFromFps 62 = 1"
  by (simp add: qualityFromFps_def Let_def clamp_def TARGET_FPS_def MIN_QUALITY_def
      MAX_QUALITY_def)

lemma jank_quality:
  "0.97 \<le> quality jank_then_fast" "quality jank_then_fast < 1"
proof -
  let ?T = "qualityFromFps (555812 / 9375)"
  let ?v = "1 + (?T - 1) * QUALITY_EMA"
  have T1: "?T < 1" by (intro qualityFromFps_below_one) simp_all
  have T0: "0.55 \<le> ?T" using qualityFromFps_bounds(1)[of "555812 / 9375"]
    by (simp add: MIN_QUALITY_def)
  have v1: "?v < 1" using T1 unfolding QUALITY_EMA_def by (simp add: field_simps)
  have v0: "0.97 \<le> ?v" using T0 unfolding QUALITY_EMA_def by (simp add: field_simps)
  have "clamp ?v MIN_QUALITY MAX_QUALITY = ?v"
    using v0 v1 by (simp add: clamp_def MIN_QUALITY_def MAX_QUALITY_def)
  then have q: "quality jank_then_fast = ?v" by (simp only: jank_then_fast_perf(5))
  show "0.97 \<le> quality jank_then_fast" "quality jank_then_fast < 1"
    using v0 v1 unfolding q by blast+
qed

section \<open>The claims\<close>

text \<open>
  C2 (as amended). The pool hands a released record back as it is: releasing a record
  and acquiring one of the same kind returns that very record, with every field as the
  previous use left it, and restores the pool. Only an empty pool yields a record with
  the default values. This holds for rockets, particles and smoke puffs alike.
\<close>

theorem acquire_returns_released_record_unchanged:
  "allocRocket (freeRocket r s) = (r, s)
   \<and> allocParticle (freeParticle p s) = (p, s)
   \<and> allocSmoke (freeSmoke k s) = (k, s)
   \<and> allocRocket (s\<lparr>rocketPool := []\<rparr>) = (newRocket, s\<lparr>rocketPool := []\<rparr>)
   \<and> allocParticle (s\<lparr>particlePool := []\<rparr>) = (baseParticle, s\<lparr>particlePool := []\<rparr>)
   \<and> allocSmoke (s\<lparr>smokePool := []\<rparr>) = (newSmoke, s\<lparr>smokePool := []\<rparr>)"
  by (simp add: allocRocket_def freeRocket_def allocParticle_def freeParticle_def
      allocSmoke_def freeSmoke_def)

text \<open>
  C2 as stated fails: a particle released with \<open>x = 120\<close> comes back from the pool with
  \<open>x = 120\<close>, not with the default \<open>x = 0\<close>.
\<close>

theorem acquire_default_counterexample:
  "fst (allocParticle (freeParticle used_particle demo_state)) \<noteq> baseParticle
   \<and> p_x (fst (allocParticle (freeParticle used_particle demo_state))) = 120
   \<and> p_x baseParticle = 0"
  by (simp add: allocParticle_def freeParticle_def used_particle_def baseParticle_def)

text \<open>
  C1. A push appends the particle only while the live count is below the capacity, and
  leaves the capacity alone. A pass of \<open>n\<close> iterations of any pattern loop therefore adds
  \<open>min n headroom\<close> particles, and the crackle pattern, which asks for
  \<open>min (floor (rand 90 140)) headroom\<close>, adds exactly that many. With random numbers in
  \<open>[0, 1)\<close> every pattern intends more than the capacity can hold, so a burst at live
  count \<open>L \<le> C\<close> adds exactly \<open>C - L\<close> particles and ends at \<open>C\<close>. After any sequence of
  bursts and crackle micro-spawns from a state within its capacity the live count is
  still within the capacity, which none of them changes.
\<close>

theorem bursts_clipped_to_headroom:
  "length (particles (pushParticle p s)) =
     (if int (length (particles s)) < maxParticlesCap s then Suc (length (particles s))
      else length (particles s))
   \<and> maxParticlesCap (pushParticle p s) = maxParticlesCap s
   \<and> length (particles (forLoop 0 n (peonySpark x y hue) s))
       = length (particles s) + min n (nat (roomForParticles s))
   \<and> length (particles (forLoop 0 n (peonyGlitter x y hue) s))
       = length (particles s) + min n (nat (roomForParticles s))
   \<and> length (particles (forLoop 0 n (ringSpark x y hue c jitter) s))
       = length (particles s) + min n (nat (roomForParticles s))
   \<and> length (particles (forLoop 0 n (ringCore x y hue) s))
       = length (particles s) + min n (nat (roomForParticles s))
   \<and> length (particles (forLoop 0 n (crackleSpark x y hue) s))
       = length (particles s) + min n (nat (roomForParticles s))
   \<and> length (particles (forLoop 0 n (microSpark q) s))
       = length (particles s) + min n (nat (roomForParticles s))
   \<and> (0 < roomForParticles s \<longrightarrow>
        length (particles (explodeCrackle x y hue s))
        = length (particles s) + nat (min \<lfloor>fst (rand 90 140 s)\<rfloor> (roomForParticles s)))
   \<and> (rng_ok s \<and> int (length (particles s)) \<le> maxParticlesCap s \<longrightarrow>
        length (particles (explodeBurst x y hue kind e s))
        = length (particles s) + nat (maxParticlesCap s - int (length (particles s)))
        \<and> int (length (particles (explodeBurst x y hue kind e s))) = maxParticlesCap s)
   \<and> (int (length (particles s)) \<le> maxParticlesCap s \<longrightarrow>
        int (length (particles (fold serve rs s))) \<le> maxParticlesCap (fold serve rs s)
        \<and> maxParticlesCap (fold serve rs s) = maxParticlesCap s)"
proof (intro conjI impI)
  assume a: "rng_ok s \<and> int (length (particles s)) \<le> maxParticlesCap s"
  then show full: "int (length (particles (explodeBurst x y hue kind e s))) = maxParticlesCap s"
    by (simp add: explodeBurst_exact)
  then show "length (particles (explodeBurst x y hue kind e s))
        = length (particles s) + nat (maxParticlesCap s - int (length (particles s)))"
    using a by linarith
next
  assume "int (length (particles s)) \<le> maxParticlesCap s"
  then show "int (length (particles (fold serve rs s))) \<le> maxParticlesCap (fold serve rs s)"
    and "maxParticlesCap (fold serve rs s) = maxParticlesCap s"
    using serve_fold_within[of s rs] by blast+
next
  assume "0 < roomForParticles s"
  then show "length (particles (explodeCrackle x y hue s))
        = length (particles s) + nat (min \<lfloor>fst (rand 90 140 s)\<rfloor> (roomForParticles s))"
    by (rule crackle_count)
qed (simp_all only: pushParticle_length pushParticle_cap
        pass_length[OF spawned_peonySpark] pass_length[OF spawned_peonyGlitter]
        pass_length[OF spawned_ringSpark] pass_length[OF spawned_ringCore]
        pass_length[OF spawned_crackleSpark] pass_length[OF spawned_microSpark])

text \<open>C1 on the example: a ring burst on an empty 800 by 600 scene at full quality adds 50
  particles, the whole headroom.\<close>

theorem bursts_clipped_to_headroom_witness:
  "length (particles (explodeBurst 400 300 0 Ring demo_env demo_state)) = 50
   \<and> length (particles (fold serve [BurstRequest 400 300 0 Ring demo_env,
         CrackleRequest 0.016 used_particle, BurstRequest 200 100 90 Palm demo_env]
         demo_state)) \<le> 50"
  using bursts_clipped_to_headroom[of used_particle demo_state 0 400 300 0 0 0 used_particle
      Ring demo_env "[BurstRequest 400 300 0 Ring demo_env,
         CrackleRequest 0.016 used_particle, BurstRequest 200 100 90 Palm demo_env]"]
  by (simp add: demo_ok demo_state_fields)

text \<open>
  C7. When \<open>stop\<close> returns, the three live collections are empty and every rocket,
  particle and smoke puff that was live has been appended to the pool of its kind (in
  the order the loops pop them, last first), where the next acquire finds it. The same
  holds for the public \<open>stop\<close>, which runs \<open>initOnce\<close> first.
\<close>

theorem stop_releases_every_entity:
  "rockets (stop e s) = [] \<and> particles (stop e s) = [] \<and> smokePuffs (stop e s) = []
   \<and> rocketPool (stop e s) = rocketPool s @ rev (rockets s)
   \<and> particlePool (stop e s) = particlePool s @ rev (particles s)
   \<and> smokePool (stop e s) = smokePool s @ rev (smokePuffs s)
   \<and> set (rockets s) \<subseteq> set (rocketPool (stop e s))
   \<and> set (particles s) \<subseteq> set (particlePool (stop e s))
   \<and> set (smokePuffs s) \<subseteq> set (smokePool (stop e s))
   \<and> rockets (api_stop e s) = [] \<and> particles (api_stop e s) = []
   \<and> smokePuffs (api_stop e s) = []
   \<and> rocketPool (api_stop e s) = rocketPool s @ rev (rockets s)
   \<and> particlePool (api_stop e s) = particlePool s @ rev (particles s)
   \<and> smokePool (api_stop e s) = smokePool s @ rev (smokePuffs s)"
  by (simp add: stop_fields api_stop_def initOnce_fields)

text \<open>C7 on the example scene.\<close>

theorem stop_releases_every_entity_witness:
  "rockets (stop demo_env busy_state) = [] \<and> particles (stop demo_env busy_state) = []
   \<and> smokePuffs (stop demo_env busy_state) = []
   \<and> rocketPool (stop demo_env busy_state) = [newRocket\<lparr>r_x := 5\<rparr>, newRocket]
   \<and> particlePool (stop demo_env busy_state)
       = [baseParticle\<lparr>p_hue := 7\<rparr>, baseParticle, used_particle]
   \<and> smokePool (stop demo_env busy_state) = [newSmoke]"
  using stop_releases_every_entity[of demo_env busy_state]
  by (simp add: busy_state_def demo_state_fields)

text \<open>
  C6. \<open>pause\<close>, and \<open>pause\<close> followed by \<open>resume\<close>, leave the three live collections as
  they are, entity by entity. \<open>resume\<close> clears \<open>lastTs\<close>, so the step that follows measures
  no elapsed time and simulates with a time-step of zero, however late it comes; and
  whatever the state, the time-step of a step lies between 0 and 0.033 seconds.
\<close>

theorem pause_resume_keeps_entities:
  "rockets (pause s) = rockets s \<and> particles (pause s) = particles s
   \<and> smokePuffs (pause s) = smokePuffs s
   \<and> rockets (resume e (pause s)) = rockets s \<and> particles (resume e (pause s)) = particles s
   \<and> smokePuffs (resume e (pause s)) = smokePuffs s
   \<and> rockets (api_resume e' (api_pause e s)) = rockets s
   \<and> particles (api_resume e' (api_pause e s)) = particles s
   \<and> smokePuffs (api_resume e' (api_pause e s)) = smokePuffs s
   \<and> running (resume e (pause s))
   \<and> stepDeltaMs ts (resume e (pause s)) = 0
   \<and> stepDt ts (resume e (pause s)) = 0
   \<and> stepDt ts (api_resume e' (api_pause e s)) = 0
   \<and> 0 \<le> stepDt ts s \<and> stepDt ts s \<le> 0.033"
  by (simp add: resume_fields pause_fields api_resume_def api_pause_def initOnce_fields
      stepDt_bounds stepDeltaMs_def stepDt_def clamp_def)

text \<open>C6 on the example scene: a frame 98 seconds after the last one is clamped to 0.033
  seconds, and to zero after a pause and resume.\<close>

theorem pause_resume_keeps_entities_witness:
  "length (rockets (resume demo_env (pause busy_state))) = 2
   \<and> length (particles (resume demo_env (pause busy_state))) = 2
   \<and> length (smokePuffs (resume demo_env (pause busy_state))) = 1
   \<and> stepDeltaMs 1000 busy_state = 0
   \<and> stepDt 99000 busy_state = 0.033
   \<and> stepDt 99000 (resume demo_env (pause busy_state)) = 0"
  using pause_resume_keeps_entities[of busy_state demo_env demo_env 99000]
  by (simp add: busy_state_def stepDt_def stepDeltaMs_def clamp_def)

text \<open>
  C3. The particle that \<open>makeParticle\<close> returns is given field by field by its arguments
  and seven random numbers: nothing of the record taken from the pool is left in it, and
  its life equals its maximal life, so the life fraction of a particle made with a
  non-zero life is 1. The rocket that \<open>spawnRocket\<close> and the smoke puff that \<open>spawnSmoke\<close>
  append do not depend on what the pool holds either, and both do append one when their
  guards pass. With random numbers in \<open>[0, 1)\<close>, every particle that a burst or a crackle
  block adds to the live ones has life fraction 1.
\<close>

theorem spawned_entities_fully_overwritten:
  "fst (makeParticle x y vx vy life sz hue kind s) =
     \<lparr>p_x = x, p_y = y, p_px = x, p_py = y, p_vx = vx, p_vy = vy,
      p_life = life, p_maxLife = life, p_size = sz, p_hue = hue, p_kind = kind,
      p_twPhase = rnd s (rpos s) * (pi * 2),
      p_twAmp = rnd s (rpos s + 1) * 0.3 + 0.85,
      p_dragMul = rnd s (rpos s + 2) * 0.18 + 0.92,
      p_gravMul = rnd s (rpos s + 3) * 0.16 + 0.92,
      p_windMul = rnd s (rpos s + 4) * 0.3 + 0.85,
      p_crackleTimer = rnd s (rpos s + 5) * 0.05 + 0.02,
      p_heat = rnd s (rpos s + 6) * 0.3 + 0.85\<rparr>
   \<and> (life \<noteq> 0 \<longrightarrow>
        p_life (fst (makeParticle x y vx vy life sz hue kind s))
          / p_maxLife (fst (makeParticle x y vx vy life sz hue kind s)) = 1)
   \<and> rockets (spawnRocket xo (s\<lparr>rocketPool := rpool\<rparr>)) = rockets (spawnRocket xo s)
   \<and> smokePuffs (spawnSmoke x y (s\<lparr>smokePool := spool\<rparr>)) = smokePuffs (spawnSmoke x y s)
   \<and> (int (length (rockets s)) < maxRocketsCap s \<and> 10 \<le> view_w s \<and> 10 \<le> view_h s \<longrightarrow>
        length (rockets (spawnRocket xo s)) = Suc (length (rockets s)))
   \<and> (smokeSprite s \<and> int (length (smokePuffs s)) < maxSmokeCap s \<longrightarrow>
        length (smokePuffs (spawnSmoke x y s)) = Suc (length (smokePuffs s)))
   \<and> (rng_ok s \<longrightarrow>
        (\<forall>p\<in>set (drop (length (particles s)) (particles (serve r s))).
           p_life p / p_maxLife p = 1))"
  using serve_fresh[of s r]
  by (simp add: makeParticle_fst spawnRocket_pool_indep spawnSmoke_pool_indep
      spawnRocket_length spawnSmoke_length fresh_fraction)

text \<open>C3 on the example: all 50 particles of a peony burst start with life fraction 1.\<close>

theorem spawned_entities_fully_overwritten_witness:
  "list_all (\<lambda>p. p_life p / p_maxLife p = 1)
     (particles (explodeBurst 400 300 0 Peony demo_env demo_state))
   \<and> p_life (fst (makeParticle 1 2 3 4 60 2 0 Spark
         (freeParticle used_particle demo_state))) = 60
   \<and> length (rockets (spawnRocket None demo_state)) = 1
   \<and> length (smokePuffs (spawnSmoke 400 300 demo_state)) = 1"
  using spawned_entities_fully_overwritten[of 1 2 3 4 60 2 0 Spark
      "freeParticle used_particle demo_state"]
    spawned_entities_fully_overwritten[of 400 300 0 0 60 2 0 Spark demo_state None "[]" "[]"
      "BurstRequest 400 300 0 Peony demo_env"]
  by (auto simp: demo_ok demo_caps demo_state_fields list_all_iff freeParticle_def)

text \<open>
  C9 (as amended). A manual burst is accepted exactly when the surface is at least 10
  pixels wide and 10 pixels high, whatever the lifecycle state: then it draws a hue and
  a pattern and runs the burst generator, which (with random numbers in \<open>[0, 1)\<close>) fills
  the particle headroom and leaves the running flag as it was. A surface narrower or
  lower than 10 pixels refuses the burst and nothing changes.
\<close>

theorem burst_accepted_from_ten_pixels:
  "(10 \<le> view_w s \<and> 10 \<le> view_h s \<longrightarrow>
      burst xo yo e s =
        explodeBurst (case xo of Some v \<Rightarrow> v | None \<Rightarrow> view_w s * 0.5)
          (case yo of Some v \<Rightarrow> v | None \<Rightarrow> view_h s * 0.6)
          (fst (randomHue s)) (fst (chooseBurstKind (snd (randomHue s)))) e
          (snd (chooseBurstKind (snd (randomHue s))))
      \<and> running (burst xo yo e s) = running s
      \<and> (rng_ok s \<longrightarrow>
           length (particles (burst xo yo e s))
           = length (particles s) + nat (roomForParticles s)))
   \<and> (view_w s < 10 \<or> view_h s < 10 \<longrightarrow> burst xo yo e s = s)
   \<and> api_burst xo yo e s = burst xo yo e (initOnce e s)"
  using fills_burst[of s xo yo e] burst_accepted[of s xo yo e] burst_refused[of s xo yo e]
  by (auto simp: api_burst_def fills_running fills_length)

text \<open>C9 on the examples: a paused 800 by 600 scene takes the burst, a 5 by 5 one refuses
  it.\<close>

theorem burst_accepted_from_ten_pixels_witness:
  "length (particles (burst (Some 400) (Some 300) demo_env (pause demo_state))) = 50
   \<and> running (burst (Some 400) (Some 300) demo_env (pause demo_state)) = False
   \<and> burst (Some 2) (Some 2) tiny_env tiny_state = tiny_state"
proof -
  let ?b = "burst (Some 400) (Some 300) demo_env (pause demo_state)"
  have big: "10 \<le> view_w (pause demo_state) \<and> 10 \<le> view_h (pause demo_state)"
    by (simp add: pause_fields demo_state_fields)
  have ok: "rng_ok (pause demo_state)"
    by (simp add: rng_ok_def pause_fields demo_state_fields)
  have "running ?b = running (pause demo_state)
        \<and> length (particles ?b)
            = length (particles (pause demo_state)) + nat (roomForParticles (pause demo_state))"
    using burst_accepted_from_ten_pixels[of "pause demo_state" "Some 400" "Some 300" demo_env]
      big ok by blast
  moreover have "burst (Some 2) (Some 2) tiny_env tiny_state = tiny_state"
    using burst_accepted_from_ten_pixels[of tiny_state "Some 2" "Some 2" tiny_env]
    by (simp add: tiny_state_fields)
  ultimately show ?thesis
    by (simp add: pause_fields demo_state_fields roomForParticles_def maxParticlesCap_def
        lerp_def clamp_def BASE_MAX_PARTICLES_def)
qed

text \<open>
  C9 as stated fails: a surface of 5 by 5 pixels has non-zero area, and the burst is
  dropped all the same; no particle appears and the state is left as it was.
\<close>

theorem burst_nonzero_area_counterexample:
  "view_w tiny_state \<noteq> 0 \<and> view_h tiny_state \<noteq> 0
   \<and> view_w tiny_state * view_h tiny_state = 25
   \<and> burst (Some 2) (Some 2) tiny_env tiny_state = tiny_state
   \<and> particles (burst (Some 2) (Some 2) tiny_env tiny_state) = []"
  by (simp add: burst_refused tiny_state_fields)

text \<open>
  C10. \<open>start\<close> with the celebration (asked for or by default) sets three timers, at 90,
  170 and 240 ms, each a plain call of \<open>burst\<close>. \<open>pause\<close> and \<open>stop\<close> clear the running flag,
  yet a celebration timer that fires afterwards runs the burst as in any other state:
  on a surface of at least 10 by 10 pixels it fills the particle headroom (after \<open>stop\<close>
  that is the whole capacity, at least 22 particles) and, when the smoke draw falls
  below the smoke chance and the smoke cap has room, adds a smoke puff; the system stays
  not running. The timer of a secondary break does nothing when the system is not
  running.
\<close>

theorem celebration_timers_ignore_running:
  "timers (start (Some True) e s) = timers s @
     [(90, CelebrationBurst 0.50 0.62), (170, CelebrationBurst 0.38 0.58),
      (240, CelebrationBurst 0.62 0.60)]
   \<and> start None e s = start (Some True) e s
   \<and> timers (start (Some False) e s) = timers s
   \<and> running (pause s) = False \<and> running (stop e s) = False
   \<and> fireTimer (CelebrationBurst fx fy) e s
       = burst (Some (view_w s * fx)) (Some (view_h s * fy)) e s
   \<and> (rng_ok s \<and> 10 \<le> view_w s \<and> 10 \<le> view_h s \<longrightarrow>
        length (particles (fireTimer (CelebrationBurst fx fy) e s))
          = length (particles s) + nat (roomForParticles s)
        \<and> running (fireTimer (CelebrationBurst fx fy) e s) = running s)
   \<and> (rng_ok s \<and> 10 \<le> view_w (stop e s) \<and> 10 \<le> view_h (stop e s) \<longrightarrow>
        22 \<le> length (particles (fireTimer (CelebrationBurst fx fy) e' (stop e s)))
        \<and> running (fireTimer (CelebrationBurst fx fy) e' (stop e s)) = False)
   \<and> (10 \<le> view_w s \<and> 10 \<le> view_h s \<and> smokeSprite s
        \<and> int (length (smokePuffs s)) < maxSmokeCap s
        \<and> fst (Math_random (playPop e (snd (chooseBurstKind (snd (randomHue s))))))
             < 0.85 * lerp 0.55 1.0 (quality s) \<longrightarrow>
        length (smokePuffs (fireTimer (CelebrationBurst fx fy) e s))
          = Suc (length (smokePuffs s)))
   \<and> (\<not> running s \<longrightarrow> fireTimer (SecondaryBreak x y dx dy hue) e s = s)"
proof (intro conjI impI)
  assume a: "rng_ok s \<and> 10 \<le> view_w s \<and> 10 \<le> view_h s"
  then have f: "fills s (fireTimer (CelebrationBurst fx fy) e s)"
    by (simp add: fills_burst)
  from fills_length[OF f] a
  show "length (particles (fireTimer (CelebrationBurst fx fy) e s))
          = length (particles s) + nat (roomForParticles s)" by simp
  from fills_running[OF f]
  show "running (fireTimer (CelebrationBurst fx fy) e s) = running s" .
next
  assume a: "rng_ok s \<and> 10 \<le> view_w (stop e s) \<and> 10 \<le> view_h (stop e s)"
  then have f: "fills (stop e s) (fireTimer (CelebrationBurst fx fy) e' (stop e s))"
    by (simp add: fills_burst)
  have ok: "rng_ok (stop e s)" using a by (simp add: rng_ok_def stop_fields)
  have "nat (roomForParticles (stop e s)) \<ge> 22"
    using maxParticlesCap_bounds(1)[of "stop e s"] by (simp add: roomForParticles_def stop_fields)
  with fills_length[OF f ok]
  show "22 \<le> length (particles (fireTimer (CelebrationBurst fx fy) e' (stop e s)))"
    by simp
  from fills_running[OF f]
  show "running (fireTimer (CelebrationBurst fx fy) e' (stop e s)) = False"
    by (simp add: stop_fields)
next
  assume "10 \<le> view_w s \<and> 10 \<le> view_h s \<and> smokeSprite s
        \<and> int (length (smokePuffs s)) < maxSmokeCap s
        \<and> fst (Math_random (playPop e (snd (chooseBurstKind (snd (randomHue s))))))
             < 0.85 * lerp 0.55 1.0 (quality s)"
  then show "length (smokePuffs (fireTimer (CelebrationBurst fx fy) e s))
          = Suc (length (smokePuffs s))"
    using celebration_smoke[of s e fx fy] by blast
qed (simp_all add: start_timers pause_fields stop_fields)

text \<open>C10 on the example: the first celebration timer, fired on the stopped system, leaves
  50 particles and a smoke puff alive while the system is still not running.\<close>

theorem celebration_timers_ignore_running_witness:
  "timers stopped_early = [(90, CelebrationBurst 0.50 0.62), (170, CelebrationBurst 0.38 0.58),
      (240, CelebrationBurst 0.62 0.60)]
   \<and> running stopped_early = False
   \<and> length (particles (fireTimer (CelebrationBurst 0.50 0.62) demo_env stopped_early)) = 50
   \<and> length (smokePuffs (fireTimer (CelebrationBurst 0.50 0.62) demo_env stopped_early)) = 1
   \<and> running (fireTimer (CelebrationBurst 0.50 0.62) demo_env stopped_early) = False
   \<and> fireTimer (SecondaryBreak 400 300 10 10 0) demo_env stopped_early = stopped_early"
proof -
  let ?f = "fireTimer (CelebrationBurst 0.50 0.62) demo_env stopped_early"
  note t = celebration_timers_ignore_running[of demo_env stopped_early "0.50" "0.62" demo_env
      400 300 10 10 0]
  have ok: "rng_ok stopped_early" by (simp add: rng_ok_def stopped_early_fields)
  have big: "10 \<le> view_w stopped_early \<and> 10 \<le> view_h stopped_early"
    by (simp add: stopped_early_fields)
  have cap: "int (length (smokePuffs stopped_early)) < maxSmokeCap stopped_early"
    by (simp add: stopped_early_fields maxSmokeCap_def lerp_def clamp_def BASE_MAX_SMOKE_def)
  have draw: "fst (Math_random (playPop demo_env
                 (snd (chooseBurstKind (snd (randomHue stopped_early))))))
              < 0.85 * lerp 0.55 1.0 (quality stopped_early)"
    by (simp add: Math_random_simps playPop_fields chooseBurstKind_snd randomHue_def rand_simps
        stopped_early_fields lerp_def)
  have "length (particles ?f)
          = length (particles stopped_early) + nat (roomForParticles stopped_early)
        \<and> running ?f = running stopped_early"
    using t ok big by blast
  moreover have "length (smokePuffs ?f) = Suc (length (smokePuffs stopped_early))"
    using t big cap draw stopped_early_fields(6) by blast
  moreover have "fireTimer (SecondaryBreak 400 300 10 10 0) demo_env stopped_early
                 = stopped_early"
    using t stopped_early_fields(2) by blast
  ultimately show ?thesis
    by (simp add: stopped_early_fields roomForParticles_def maxParticlesCap_def lerp_def
        clamp_def BASE_MAX_PARTICLES_def)
qed

text \<open>
  C4. In every state the script can reach, the quality scalar lies in \<open>[0.55, 1]\<close>. It is
  1 when the module has loaded and after \<open>resetPerf\<close>, which \<open>start\<close> and \<open>resume\<close> run. An
  update either leaves it alone (within 220 ms of the last one) or moves it by the factor
  0.045 towards the target and clamps the result to \<open>[0.55, 1]\<close>, so the result is in the
  interval whatever the state before; the target of a non-negative smoothed frame rate
  \<open>f\<close> is \<open>clamp ((min f 62 / 60) powr 0.78) 0.55 1\<close>, and the smoothed frame rate of a
  reachable state is positive.
\<close>

theorem quality_always_in_range:
  "reachable s \<Longrightarrow>
     MIN_QUALITY \<le> quality s \<and> quality s \<le> MAX_QUALITY \<and> 0 < fpsSmoothed s
     \<and> MIN_QUALITY = 0.55 \<and> MAX_QUALITY = 1.0
     \<and> quality (initial rs sp) = 1.0 \<and> quality (resetPerf t) = 1.0
     \<and> quality (start opt e t) = 1.0 \<and> quality (resume e t) = 1.0
     \<and> quality (updateQuality ts d e t) =
         (if ts - lastQualityTs t > 220
          then clamp (quality t
                  + (qualityFromFps
                       (min (fpsSmoothed t + (1000 / clamp d 6 120 - fpsSmoothed t) * FPS_EMA) 62)
                     - quality t) * QUALITY_EMA) MIN_QUALITY MAX_QUALITY
          else quality t)
     \<and> (ts - lastQualityTs t > 220 \<longrightarrow>
          MIN_QUALITY \<le> quality (updateQuality ts d e t)
          \<and> quality (updateQuality ts d e t) \<le> MAX_QUALITY)
     \<and> (0 \<le> f \<longrightarrow> qualityFromFps (min f 62) = clamp ((min f 62 / 60) powr 0.78) 0.55 1.0)
     \<and> QUALITY_EMA = 0.045"
  using reachable_governor[of s] clamp_bounds[of MIN_QUALITY MAX_QUALITY]
  by (simp add: governor_ok_def initial_fields perf_fields start_fields updateQuality_quality
      qualityFromFps_formula MIN_QUALITY_def MAX_QUALITY_def QUALITY_EMA_def)

text \<open>C4 on the example: after a start and a first frame the quality is in range.\<close>

theorem quality_always_in_range_witness:
  "0.55 \<le> quality (step 1000 demo_env
              (api_start (Some False) demo_env (initial (\<lambda>n. 1 / 2) True)))
   \<and> quality (step 1000 demo_env
              (api_start (Some False) demo_env (initial (\<lambda>n. 1 / 2) True))) \<le> 1"
proof -
  have "reachable (step 1000 demo_env
          (api_start (Some False) demo_env (initial (\<lambda>n. 1 / 2) True)))"
    by (intro reachable.intros)
  from quality_always_in_range[OF this] show ?thesis
    by (simp add: MIN_QUALITY_def MAX_QUALITY_def)
qed

text \<open>
  C5 (as amended). Let the delta be held constant, with instantaneous frame rate \<open>f\<close>. If
  the smoothed frame rate is at least \<open>f\<close> and the quality is at least the target of the
  smoothed frame rate and at most 1 (all true after \<open>resetPerf\<close> when \<open>f\<close> is at most 60),
  then over any number of updates, at whatever timestamps, the quality never rises and
  never falls below \<open>qualityFromFps f\<close>.
\<close>

theorem constant_low_fps_lowers_quality:
  "(1000 / clamp d 6 120 \<le> fpsSmoothed s
    \<and> qualityFromFps (min (fpsSmoothed s) 62) \<le> quality s \<and> quality s \<le> MAX_QUALITY \<longrightarrow>
      quality (fold (\<lambda>ts. updateQuality ts d e) tss s) \<le> quality s
      \<and> qualityFromFps (1000 / clamp d 6 120) \<le> quality (fold (\<lambda>ts. updateQuality ts d e) tss s)
      \<and> quality (updateQuality ts d e (fold (\<lambda>ts. updateQuality ts d e) tss s))
          \<le> quality (fold (\<lambda>ts. updateQuality ts d e) tss s)
      \<and> qualityFromFps (1000 / clamp d 6 120)
          \<le> quality (updateQuality ts d e (fold (\<lambda>ts. updateQuality ts d e) tss s)))
   \<and> (1000 / clamp d 6 120 \<le> TARGET_FPS \<longrightarrow>
        1000 / clamp d 6 120 \<le> fpsSmoothed (resetPerf s)
        \<and> qualityFromFps (min (fpsSmoothed (resetPerf s)) 62) \<le> quality (resetPerf s)
        \<and> quality (resetPerf s) \<le> MAX_QUALITY)"
proof (intro conjI impI)
  assume "1000 / clamp d 6 120 \<le> fpsSmoothed s
    \<and> qualityFromFps (min (fpsSmoothed s) 62) \<le> quality s \<and> quality s \<le> MAX_QUALITY"
  then have st: "settling (1000 / clamp d 6 120) s" by (simp add: settling_def)
  let ?t = "fold (\<lambda>ts. updateQuality ts d e) tss s"
  from settling_fold[OF st, of e tss]
  have t: "settling (1000 / clamp d 6 120) ?t" and le: "quality ?t \<le> quality s" by simp_all
  from settling_step[OF t, of ts e]
  have u: "settling (1000 / clamp d 6 120) (updateQuality ts d e ?t)"
    and le2: "quality (updateQuality ts d e ?t) \<le> quality ?t" by simp_all
  show "quality ?t \<le> quality s" by (rule le)
  show "qualityFromFps (1000 / clamp d 6 120) \<le> quality ?t" by (rule settling_floor[OF t])
  show "quality (updateQuality ts d e ?t) \<le> quality ?t" by (rule le2)
  show "qualityFromFps (1000 / clamp d 6 120) \<le> quality (updateQuality ts d e ?t)"
    by (rule settling_floor[OF u])
next
  assume a: "1000 / clamp d 6 120 \<le> TARGET_FPS"
  then show "1000 / clamp d 6 120 \<le> fpsSmoothed (resetPerf s)" by (simp add: perf_fields)
  have "qualityFromFps (min TARGET_FPS 62) \<le> MAX_QUALITY" by (rule qualityFromFps_bounds)
  then show "qualityFromFps (min (fpsSmoothed (resetPerf s)) 62) \<le> quality (resetPerf s)"
    by (simp add: perf_fields MAX_QUALITY_def)
  show "quality (resetPerf s) \<le> MAX_QUALITY" by (simp add: perf_fields MAX_QUALITY_def)
qed

text \<open>C5 on the example: from the reset state, three updates at 120 ms per frame.\<close>

theorem constant_low_fps_lowers_quality_witness:
  "quality (fold (\<lambda>ts. updateQuality ts 120 demo_env) [1000, 1300, 1600] (resetPerf demo_state))
     \<le> 1
   \<and> qualityFromFps (1000 / 120)
     \<le> quality (fold (\<lambda>ts. updateQuality ts 120 demo_env) [1000, 1300, 1600]
          (resetPerf demo_state))"
proof -
  have c: "clamp (120::real) 6 120 = 120" by (simp add: clamp_def)
  note t = constant_low_fps_lowers_quality[of 120 "resetPerf demo_state" demo_env
      "[1000, 1300, 1600]" 0, unfolded c]
  have "1000 / 120 \<le> TARGET_FPS" by (simp add: TARGET_FPS_def)
  with t have "1000 / 120 \<le> fpsSmoothed (resetPerf demo_state)
    \<and> qualityFromFps (min (fpsSmoothed (resetPerf demo_state)) 62) \<le> quality (resetPerf demo_state)
    \<and> quality (resetPerf demo_state) \<le> MAX_QUALITY"
    by (simp add: perf_fields resetPerf_def)
  with t show ?thesis by (simp add: perf_fields)
qed

text \<open>
  C5 as stated fails. After a start and the seven frames above the quality is a little
  below 1 and the smoothed frame rate is above 79. The next frame comes 20 ms later, a
  frame rate of 50, whose target (at most 0.92) is below the current quality; yet this
  update raises the quality, because the smoothed frame rate it decides on is still
  above 62.
\<close>

theorem constant_low_fps_counterexample:
  "stepDeltaMs 578 jank_then_fast = 20
   \<and> qualityFromFps (1000 / clamp 20 6 120) < quality jank_then_fast
   \<and> quality jank_then_fast
       < quality (updateQuality 578 20 demo_env jank_then_fast)
   \<and> quality (step 578 demo_env jank_then_fast)
       = quality (updateQuality 578 20 demo_env jank_then_fast)"
proof -
  have d: "stepDeltaMs 578 jank_then_fast = 20"
    by (simp add: stepDeltaMs_def jank_then_fast_perf)
  have c: "clamp (20::real) 6 120 = 20" by (simp add: clamp_def)
  have h: "qualityFromFps (1000 / clamp 20 6 120) < quality jank_then_fast"
    using qualityFromFps_50 jank_quality(1) by (simp add: c)
  let ?F = "fpsSmoothed jank_then_fast + (1000 / clamp 20 6 120 - fpsSmoothed jank_then_fast) * FPS_EMA"
  have "62 \<le> ?F" using jank_then_fast_perf(4) unfolding c FPS_EMA_def
    by (simp add: field_simps)
  then have m: "min ?F 62 = 62" by simp
  let ?q = "quality jank_then_fast"
  have "quality (updateQuality 578 20 demo_env jank_then_fast)
        = clamp (?q + (1 - ?q) * QUALITY_EMA) MIN_QUALITY MAX_QUALITY"
    by (simp only: updateQuality_quality m qualityFromFps_62 jank_then_fast_perf(3)) simp
  also have "\<dots> = ?q + (1 - ?q) * QUALITY_EMA"
  proof -
    have "0.55 \<le> ?q + (1 - ?q) * QUALITY_EMA" "?q + (1 - ?q) * QUALITY_EMA \<le> 1"
      using jank_quality unfolding QUALITY_EMA_def by (simp_all add: field_simps)
    then show ?thesis by (simp add: clamp_def MIN_QUALITY_def MAX_QUALITY_def)
  qed
  finally have up: "quality (updateQuality 578 20 demo_env jank_then_fast)
                    = ?q + (1 - ?q) * QUALITY_EMA" .
  have inc: "?q < quality (updateQuality 578 20 demo_env jank_then_fast)"
    unfolding up using jank_quality(2) unfolding QUALITY_EMA_def by (simp add: field_simps)
  have "quality (step 578 demo_env jank_then_fast)
        = quality (updateQuality 578 20 demo_env jank_then_fast)"
    by (simp add: step_perf jank_then_fast_perf d)
  with d h inc show ?thesis by simp
qed

end
